theory Spec2Isabelle
  imports Complex_Main
begin

section \<open>Strings and numbers of the Go runtime used by the client\<close>

text \<open>
  Go strings are byte sequences; they are modelled as \<^typ>\<open>string\<close>. Go's \<open>int\<close> (64 bits)
  is modelled as \<^typ>\<open>int\<close>: the client never does arithmetic on a TTL or a status code, it
  only converts and prints them, and the one conversion that can leave the 64-bit range
  (\<open>float64_to_int\<close>) writes the range out.
\<close>

abbreviation nl :: string where "nl \<equiv> [CHR 0x0A]"
abbreviation tab :: string where "tab \<equiv> [CHR 0x09]"
abbreviation sq :: string where "sq \<equiv> [CHR 0x27]"

text \<open>\<open>strings.HasSuffix\<close> and \<open>strings.TrimSuffix\<close>.\<close>

definition HasSuffix :: "string \<Rightarrow> string \<Rightarrow> bool" where
  "HasSuffix s suffix =
     (length suffix \<le> length s \<and> drop (length s - length suffix) s = suffix)"

definition TrimSuffix :: "string \<Rightarrow> string \<Rightarrow> string" where
  "TrimSuffix s suffix =
     (if HasSuffix s suffix then take (length s - length suffix) s else s)"

text \<open>
  \<open>strings.ToLower\<close>. The library function first scans the bytes. If every byte is ASCII
  (below \<open>utf8.RuneSelf\<close>, 128), each upper-case letter \<open>'A'\<close> .. \<open>'Z'\<close> has \<open>'a' - 'A'\<close>
  added and every other byte is kept (\<open>lower_byte\<close>). If some byte is not ASCII, it returns
  \<open>strings.Map(unicode.ToLower, s)\<close>, which decodes the string as UTF-8 and maps every
  rune by the Unicode case tables. That function of the library is the parameter \<open>uni\<close>
  of the model: every function that lower-cases takes it, and nothing is assumed of it
  unless a theorem says so.
\<close>

type_synonym unicode_lower = "string \<Rightarrow> string"

definition is_ascii :: "char \<Rightarrow> bool" where
  "is_ascii c = ((of_char c :: nat) < 128)"

definition lower_byte :: "char \<Rightarrow> char" where
  "lower_byte c =
     (let n = (of_char c :: nat) in if 65 \<le> n \<and> n \<le> 90 then char_of (n + 32) else c)"

definition ToLower :: "unicode_lower \<Rightarrow> string \<Rightarrow> string" where
  "ToLower uni s = (if list_all is_ascii s then map lower_byte s else uni s)"

text \<open>\<open>strconv.Itoa\<close>: the decimal representation of an integer.\<close>

definition digit_char :: "nat \<Rightarrow> char" where
  "digit_char d = char_of (48 + d)"

fun nat_dec :: "nat \<Rightarrow> string" where
  "nat_dec n = (if n < 10 then [digit_char n] else nat_dec (n div 10) @ [digit_char (n mod 10)])"

declare nat_dec.simps [simp del]

definition Itoa :: "int \<Rightarrow> string" where
  "Itoa i = (if i < 0 then ''-'' @ nat_dec (nat (- i)) else nat_dec (nat i))"

text \<open>
  Reading a decimal representation back (used only to state that \<open>Itoa\<close> is the decimal
  representation): the value of a digit string, with an optional leading minus sign.
\<close>

definition digit_val :: "char \<Rightarrow> nat" where
  "digit_val c = of_char c - 48"

definition is_digit :: "char \<Rightarrow> bool" where
  "is_digit c = (48 \<le> (of_char c :: nat) \<and> (of_char c :: nat) \<le> 57)"

definition dec_val :: "string \<Rightarrow> nat" where
  "dec_val s = foldl (\<lambda>a c. 10 * a + digit_val c) 0 s"

definition decimal_value :: "string \<Rightarrow> int option" where
  "decimal_value s =
     (case s of
        [] \<Rightarrow> None
      | c # cs \<Rightarrow>
          if c = CHR ''-'' then
            (if cs \<noteq> [] \<and> list_all is_digit cs then Some (- int (dec_val cs)) else None)
          else if list_all is_digit s then Some (int (dec_val s)) else None)"

text \<open>
  The conversion \<open>int(f)\<close> of a \<open>float64\<close> decoded from a JSON number. A decoded JSON
  number is a finite \<open>float64\<close>, hence a rational. The fraction is discarded (truncation
  towards zero, \<open>float_trunc\<close>); when the truncated value fits the 64-bit \<open>int\<close>, it is the
  result. When it does not fit, Go leaves the result to the implementation: the
  conversion instruction of amd64 yields the least \<open>int64\<close>, \<open>-9223372036854775808\<close>, and
  that is what the model returns.
\<close>

definition float_trunc :: "rat \<Rightarrow> int" where
  "float_trunc f = (if 0 \<le> f then \<lfloor>f\<rfloor> else \<lceil>f\<rceil>)"

definition float64_to_int :: "rat \<Rightarrow> int" where
  "float64_to_int f =
     (let t = float_trunc f
      in if - (2 ^ 63) \<le> t \<and> t < 2 ^ 63 then t else - (2 ^ 63))"

section \<open>Errors\<close>

text \<open>
  Every error of the program is a Go \<open>error\<close> value built by \<open>fmt.Errorf\<close> or handed up
  from a library. The constructors keep the parts each message is built from:
  \<^item> \<open>TransportError\<close>: \<open>http.NewRequest\<close> or \<open>httpClient.Do\<close> failed (the library's
    message);
  \<^item> \<open>ApiError body status\<close>: \<open>"API error: %s, status code: %d"\<close>;
  \<^item> \<open>JsonError\<close>: \<open>encoding/json\<close> rejected the body (the library's message);
  \<^item> \<open>DecodeError\<close>: \<open>"unexpected response format: ..."\<close>;
  \<^item> \<open>NotFoundError\<close>: zone resolution found no zone;
  \<^item> \<open>ConfigError\<close>: an error of \<open>LoadConfig\<close>, wrapping the message of the operating
    system.
\<close>

datatype error =
    TransportError string
  | ApiError string int
  | JsonError string
  | DecodeError string
  | NotFoundError string
  | ConfigError string

text \<open>The text of an error, as \<open>%v\<close> prints it.\<close>

fun error_text :: "error \<Rightarrow> string" where
  "error_text (TransportError m) = m"
| "error_text (ApiError body status) =
     ''API error: '' @ body @ '', status code: '' @ Itoa status"
| "error_text (JsonError m) = m"
| "error_text (DecodeError m) = m"
| "error_text (NotFoundError m) = m"
| "error_text (ConfigError m) = m"

section \<open>JSON documents\<close>

text \<open>
  A parsed JSON document. An object keeps its members in the order of the text, as a list
  of pairs. Decoding an object into a Go \<open>map[string]interface{}\<close> keeps the last member
  of a repeated key (\<open>go_map\<close>).
\<close>

datatype json =
    JNull
  | JBool bool
  | JNumber rat
  | JString string
  | JArray "json list"
  | JObject "(string \<times> json) list"

definition go_map :: "(string \<times> json) list \<Rightarrow> (string \<rightharpoonup> json)" where
  "go_map kvs = map_of (rev kvs)"

text \<open>The type assertions \<open>m[k].(string)\<close> and \<open>m[k].(float64)\<close> on a decoded map.\<close>

definition as_string :: "(string \<rightharpoonup> json) \<Rightarrow> string \<Rightarrow> string option" where
  "as_string m k = (case m k of Some (JString s) \<Rightarrow> Some s | _ \<Rightarrow> None)"

definition as_float64 :: "(string \<rightharpoonup> json) \<Rightarrow> string \<Rightarrow> rat option" where
  "as_float64 m k = (case m k of Some (JNumber f) \<Rightarrow> Some f | _ \<Rightarrow> None)"

text \<open>
  Decoding a body into \<open>var result map[string]interface{}\<close>. The first argument is what
  \<open>encoding/json\<close> makes of the body: the message of its syntax error, or the document. A top-level \<open>null\<close>
  leaves the map nil (every lookup misses); any other non-object is a type error.
\<close>

definition json_kind :: "json \<Rightarrow> string" where
  "json_kind j =
     (case j of JNull \<Rightarrow> ''null'' | JBool _ \<Rightarrow> ''bool'' | JNumber _ \<Rightarrow> ''number''
      | JString _ \<Rightarrow> ''string'' | JArray _ \<Rightarrow> ''array'' | JObject _ \<Rightarrow> ''object'')"

definition decode_map :: "string + json \<Rightarrow> error + (string \<rightharpoonup> json)" where
  "decode_map parsed =
     (case parsed of
        Inl msg \<Rightarrow> Inl (JsonError msg)
      | Inr (JObject kvs) \<Rightarrow> Inr (go_map kvs)
      | Inr JNull \<Rightarrow> Inr Map.empty
      | Inr j \<Rightarrow> Inl (JsonError (''json: cannot unmarshal '' @ json_kind j @
                    '' into Go value of type map[string]interface {}'')))"

section \<open>pkg/api: zones, records and the HTTP client\<close>

record Zone =
  ID :: string
  Name :: string
  TTL :: int
  RecordsCount :: int

record Record =
  ID :: string
  Type :: string
  Name :: string
  Value :: string
  TTL :: int
  ZoneID :: string
  Created :: string
  Modified :: string

text \<open>The zero values \<open>Zone{}\<close> and \<open>Record{}\<close>.\<close>

definition Zone_zero :: Zone where
  "Zone_zero = \<lparr>Zone.ID = '''', Zone.Name = '''', Zone.TTL = 0, Zone.RecordsCount = 0\<rparr>"

definition Record_zero :: Record where
  "Record_zero = \<lparr>Record.ID = '''', Record.Type = '''', Record.Name = '''', Record.Value = '''',
     Record.TTL = 0, Record.ZoneID = '''', Record.Created = '''', Record.Modified = ''''\<rparr>"

text \<open>
  An HTTP exchange. A request carries its JSON body as a document (the document whose text
  \<open>json.Marshal\<close> writes). A response carries the status code, the bytes of the body, and
  what \<open>encoding/json\<close> makes of those bytes. The client holds the token and \<open>Do\<close>, which
  stands for \<open>http.NewRequest\<close> followed by \<open>httpClient.Do\<close>: the message of the error
  of either, or a response.
\<close>

record Request =
  Method :: string
  URL :: string
  Header :: "(string \<times> string) list"
  ReqBody :: "json option"

record Response =
  StatusCode :: int
  Body :: string
  Json :: "string + json"

record Client =
  apiToken :: string
  Do :: "Request \<Rightarrow> string + Response"

definition baseURL :: string where
  "baseURL = ''https://dns.hetzner.com/api/v1''"

definition NewClient :: "string \<Rightarrow> (Request \<Rightarrow> string + Response) \<Rightarrow> Client" where
  "NewClient token httpClient = \<lparr>apiToken = token, Do = httpClient\<rparr>"

subsection \<open>GetZones\<close>

text \<open>The body of the loop over \<open>zonesData\<close>: the four guarded field extractions.\<close>

definition zone_of_map :: "(string \<rightharpoonup> json) \<Rightarrow> Zone" where
  "zone_of_map zoneMap =
     (let zone = Zone_zero;
          zone = (case as_string zoneMap ''id'' of
                    Some i \<Rightarrow> zone\<lparr>Zone.ID := i\<rparr> | None \<Rightarrow> zone);
          zone = (case as_string zoneMap ''name'' of
                    Some n \<Rightarrow> zone\<lparr>Zone.Name := n\<rparr> | None \<Rightarrow> zone);
          zone = (case as_float64 zoneMap ''ttl'' of
                    Some ttl \<Rightarrow> zone\<lparr>Zone.TTL := float64_to_int ttl\<rparr> | None \<Rightarrow> zone);
          zone = (case as_float64 zoneMap ''records_count'' of
                    Some n \<Rightarrow> zone\<lparr>Zone.RecordsCount := float64_to_int n\<rparr> | None \<Rightarrow> zone)
      in zone)"

fun zones_loop :: "json list \<Rightarrow> Zone list \<Rightarrow> Zone list" where
  "zones_loop [] zones = zones"
| "zones_loop (zoneData # rest) zones =
     (case zoneData of
        JObject kvs \<Rightarrow> zones_loop rest (zones @ [zone_of_map (go_map kvs)])
      | _ \<Rightarrow> zones_loop rest zones)"

definition GetZones_request :: "Client \<Rightarrow> Request" where
  "GetZones_request c =
     \<lparr>Method = ''GET'', URL = baseURL @ ''/zones'',
      Header = [(''Auth-API-Token'', apiToken c), (''Content-Type'', ''application/json'')],
      ReqBody = None\<rparr>"

definition GetZones :: "Client \<Rightarrow> error + Zone list" where
  "GetZones c =
     (case Do c (GetZones_request c) of
        Inl msg \<Rightarrow> Inl (TransportError msg)
      | Inr resp \<Rightarrow>
          if StatusCode resp \<noteq> 200 then Inl (ApiError (Body resp) (StatusCode resp))
          else
            (case decode_map (Json resp) of
               Inl err \<Rightarrow> Inl err
             | Inr result \<Rightarrow>
                 (case result ''zones'' of
                    Some (JArray zonesData) \<Rightarrow> Inr (zones_loop zonesData [])
                  | _ \<Rightarrow> Inl (DecodeError
                      ''unexpected response format: zones field not found or not an array''))))"

subsection \<open>GetRecords\<close>

text \<open>
  The six guarded field extractions of a record object. \<open>GetRecords\<close>, \<open>CreateRecord\<close> and
  \<open>UpdateRecord\<close> each spell out the same six statements; \<open>created\<close> and \<open>modified\<close> are
  never extracted.
\<close>

definition record_of_map :: "(string \<rightharpoonup> json) \<Rightarrow> Record" where
  "record_of_map recordMap =
     (let record = Record_zero;
          record = (case as_string recordMap ''id'' of
                      Some i \<Rightarrow> record\<lparr>Record.ID := i\<rparr> | None \<Rightarrow> record);
          record = (case as_string recordMap ''type'' of
                      Some t \<Rightarrow> record\<lparr>Record.Type := t\<rparr> | None \<Rightarrow> record);
          record = (case as_string recordMap ''name'' of
                      Some n \<Rightarrow> record\<lparr>Record.Name := n\<rparr> | None \<Rightarrow> record);
          record = (case as_string recordMap ''value'' of
                      Some v \<Rightarrow> record\<lparr>Record.Value := v\<rparr> | None \<Rightarrow> record);
          record = (case as_float64 recordMap ''ttl'' of
                      Some ttl \<Rightarrow> record\<lparr>Record.TTL := float64_to_int ttl\<rparr> | None \<Rightarrow> record);
          record = (case as_string recordMap ''zone_id'' of
                      Some z \<Rightarrow> record\<lparr>Record.ZoneID := z\<rparr> | None \<Rightarrow> record)
      in record)"

fun records_loop :: "json list \<Rightarrow> Record list \<Rightarrow> Record list" where
  "records_loop [] records = records"
| "records_loop (recordData # rest) records =
     (case recordData of
        JObject kvs \<Rightarrow> records_loop rest (records @ [record_of_map (go_map kvs)])
      | _ \<Rightarrow> records_loop rest records)"

definition GetRecords_request :: "Client \<Rightarrow> string \<Rightarrow> Request" where
  "GetRecords_request c zoneID =
     \<lparr>Method = ''GET'', URL = baseURL @ ''/records?zone_id='' @ zoneID,
      Header = [(''Auth-API-Token'', apiToken c), (''Content-Type'', ''application/json'')],
      ReqBody = None\<rparr>"

definition GetRecords :: "Client \<Rightarrow> string \<Rightarrow> error + Record list" where
  "GetRecords c zoneID =
     (case Do c (GetRecords_request c zoneID) of
        Inl msg \<Rightarrow> Inl (TransportError msg)
      | Inr resp \<Rightarrow>
          if StatusCode resp \<noteq> 200 then Inl (ApiError (Body resp) (StatusCode resp))
          else
            (case decode_map (Json resp) of
               Inl err \<Rightarrow> Inl err
             | Inr result \<Rightarrow>
                 (case result ''records'' of
                    Some (JArray recordsData) \<Rightarrow> Inr (records_loop recordsData [])
                  | _ \<Rightarrow> Inl (DecodeError
                      ''unexpected response format: records field not found or not an array''))))"

subsection \<open>CreateRecord, UpdateRecord, DeleteRecord\<close>

text \<open>
  \<open>json.Marshal\<close> of a \<open>Record\<close>, as the document it writes: the members follow the
  order of the struct's fields, under the names of the \<open>json\<close> tags; a field tagged
  \<open>omitempty\<close> (\<open>id\<close>, \<open>ttl\<close>, \<open>created\<close>, \<open>modified\<close>) is left out when it holds its
  zero value. Marshalling a struct of strings and integers cannot fail.
\<close>

definition Marshal :: "Record \<Rightarrow> json" where
  "Marshal r =
     JObject
       ((if Record.ID r = '''' then [] else [(''id'', JString (Record.ID r))]) @
        [(''type'', JString (Record.Type r)),
         (''name'', JString (Record.Name r)),
         (''value'', JString (Record.Value r))] @
        (if Record.TTL r = 0 then [] else [(''ttl'', JNumber (of_int (Record.TTL r)))]) @
        [(''zone_id'', JString (Record.ZoneID r))] @
        (if Record.Created r = '''' then [] else [(''created'', JString (Record.Created r))]) @
        (if Record.Modified r = '''' then [] else [(''modified'', JString (Record.Modified r))]))"

text \<open>
  The tail shared by \<open>CreateRecord\<close> and \<open>UpdateRecord\<close> after the status check:
  unmarshal the body, take the \<open>record\<close> object, extract its fields.
\<close>

definition decode_record :: "Response \<Rightarrow> error + Record" where
  "decode_record resp =
     (case decode_map (Json resp) of
        Inl err \<Rightarrow> Inl err
      | Inr result \<Rightarrow>
          (case result ''record'' of
             Some (JObject recordData) \<Rightarrow> Inr (record_of_map (go_map recordData))
           | _ \<Rightarrow> Inl (DecodeError
               ''unexpected response format: record field not found or not an object'')))"

definition CreateRecord_request :: "Client \<Rightarrow> Record \<Rightarrow> Request" where
  "CreateRecord_request c record =
     \<lparr>Method = ''POST'', URL = baseURL @ ''/records'',
      Header = [(''Auth-API-Token'', apiToken c), (''Content-Type'', ''application/json'')],
      ReqBody = Some (Marshal record)\<rparr>"

definition CreateRecord :: "Client \<Rightarrow> Record \<Rightarrow> error + Record" where
  "CreateRecord c record =
     (case Do c (CreateRecord_request c record) of
        Inl msg \<Rightarrow> Inl (TransportError msg)
      | Inr resp \<Rightarrow>
          if StatusCode resp \<noteq> 200 \<and> StatusCode resp \<noteq> 201
          then Inl (ApiError (Body resp) (StatusCode resp))
          else decode_record resp)"

definition UpdateRecord_request :: "Client \<Rightarrow> Record \<Rightarrow> Request" where
  "UpdateRecord_request c record =
     \<lparr>Method = ''PUT'', URL = baseURL @ ''/records/'' @ Record.ID record,
      Header = [(''Auth-API-Token'', apiToken c), (''Content-Type'', ''application/json'')],
      ReqBody = Some (Marshal record)\<rparr>"

definition UpdateRecord :: "Client \<Rightarrow> Record \<Rightarrow> error + Record" where
  "UpdateRecord c record =
     (case Do c (UpdateRecord_request c record) of
        Inl msg \<Rightarrow> Inl (TransportError msg)
      | Inr resp \<Rightarrow>
          if StatusCode resp \<noteq> 200
          then Inl (ApiError (Body resp) (StatusCode resp))
          else decode_record resp)"

definition DeleteRecord_request :: "Client \<Rightarrow> string \<Rightarrow> Request" where
  "DeleteRecord_request c recordID =
     \<lparr>Method = ''DELETE'', URL = baseURL @ ''/records/'' @ recordID,
      Header = [(''Auth-API-Token'', apiToken c)],
      ReqBody = None\<rparr>"

text \<open>\<open>DeleteRecord\<close> returns only an \<open>error\<close>: \<open>None\<close> is Go's \<open>nil\<close>.\<close>

definition DeleteRecord :: "Client \<Rightarrow> string \<Rightarrow> error option" where
  "DeleteRecord c recordID =
     (case Do c (DeleteRecord_request c recordID) of
        Inl msg \<Rightarrow> Some (TransportError msg)
      | Inr resp \<Rightarrow>
          if StatusCode resp \<noteq> 200 \<and> StatusCode resp \<noteq> 204
          then Some (ApiError (Body resp) (StatusCode resp))
          else None)"

subsection \<open>GetZoneIDByName\<close>

fun name_loop :: "unicode_lower \<Rightarrow> Zone list \<Rightarrow> string \<Rightarrow> Zone option" where
  "name_loop uni [] normalizedName = None"
| "name_loop uni (zone # zones) normalizedName =
     (let zoneName = ToLower uni (TrimSuffix (Zone.Name zone) ''.'')
      in if zoneName = normalizedName then Some zone
         else name_loop uni zones normalizedName)"

definition GetZoneIDByName :: "unicode_lower \<Rightarrow> Client \<Rightarrow> string \<Rightarrow> error + string" where
  "GetZoneIDByName uni c name =
     (let normalizedName = ToLower uni (TrimSuffix name ''.'')
      in case GetZones c of
           Inl err \<Rightarrow> Inl err
         | Inr zones \<Rightarrow>
             (case name_loop uni zones normalizedName of
                Some zone \<Rightarrow> Inr (Zone.ID zone)
              | None \<Rightarrow> Inl (NotFoundError (''zone with name '' @ sq @ name @ sq @ '' not found''))))"

section \<open>cmd/hetznerdns: zone resolution\<close>

text \<open>
  \<open>resolveZoneID\<close> prints while it works. The model returns the printed text, one entry
  for each \<open>Printf\<close> or \<open>Println\<close>, together with the result \<open>(string, error)\<close> as a sum.
\<close>

fun id_loop :: "Zone list \<Rightarrow> string \<Rightarrow> Zone option" where
  "id_loop [] zoneIDOrName = None"
| "id_loop (zone # zones) zoneIDOrName =
     (if Zone.ID zone = zoneIDOrName then Some zone else id_loop zones zoneIDOrName)"

fun available_zones :: "Zone list \<Rightarrow> string list" where
  "available_zones [] = []"
| "available_zones (zone # zones) =
     (''- '' @ Zone.Name zone @ '' (ID: '' @ Zone.ID zone @ '')'' @ nl) # available_zones zones"

definition resolveZoneID ::
  "unicode_lower \<Rightarrow> Client \<Rightarrow> string \<Rightarrow> string list \<times> (error + string)" where
  "resolveZoneID uni client zoneIDOrName =
     (let out = [''Attempting to resolve '' @ sq @ zoneIDOrName @ sq @ '' as a zone name...'' @ nl]
      in case GetZones client of
           Inl err \<Rightarrow> (out @ [''Error fetching zones: '' @ error_text err @ nl], Inl err)
         | Inr zones \<Rightarrow>
             (case id_loop zones zoneIDOrName of
                Some zone \<Rightarrow>
                  (out @ [''Found exact match for zone ID: '' @ Zone.ID zone @
                          '' (Name: '' @ Zone.Name zone @ '')'' @ nl],
                   Inr (Zone.ID zone))
              | None \<Rightarrow>
                  (let normalizedInput = ToLower uni (TrimSuffix zoneIDOrName ''.'')
                   in case name_loop uni zones normalizedInput of
                        Some zone \<Rightarrow>
                          (out @ [''Found zone with name '' @ sq @ Zone.Name zone @ sq @
                                  '', ID: '' @ Zone.ID zone @ nl],
                           Inr (Zone.ID zone))
                      | None \<Rightarrow>
                          (out @
                           [''Could not find any zone matching '' @ sq @ zoneIDOrName @ sq @ nl] @
                           [nl @ ''Available zones:'' @ nl] @
                           available_zones zones,
                           Inl (NotFoundError
                             (''could not find zone with ID or name '' @ sq @ zoneIDOrName @ sq))))))"

section \<open>pkg/config: LoadConfig\<close>

text \<open>
  \<open>LoadConfig\<close> reads the process environment. The model takes what each call returns:
  \<^item> \<open>UserHomeDir\<close>: the result of \<open>os.UserHomeDir()\<close>, the message of its error or the
    directory;
  \<^item> \<open>ConfigDirMissing\<close>: whether \<open>os.Stat(configDir)\<close> reports that the directory does
    not exist;
  \<^item> \<open>MkdirAll\<close>: the error of \<open>os.MkdirAll(configDir, 0755)\<close>, if it is called;
  \<^item> \<open>ReadInConfig\<close>: the outcome of \<open>viper.ReadInConfig()\<close> on the config file: read,
    with the value of \<open>api_token\<close> if the file has the key; the file was not found
    (reported as \<open>viper.ConfigFileNotFoundError\<close>, or as the \<open>PathError\<close> of the failed
    open); or the file is there and does not parse;
  \<^item> \<open>EnvToken\<close>: the environment variable \<open>HETZNER_DNS_API_TOKEN\<close>, if set.
\<close>

datatype read_outcome =
    ReadOK "string option"
  | ConfigFileNotFoundError
  | PathError string
  | ConfigParseError string

record config_env =
  UserHomeDir :: "string + string"
  ConfigDirMissing :: bool
  MkdirAll :: "string option"
  ReadInConfig :: read_outcome
  EnvToken :: "string option"

record Config =
  APIToken :: string

text \<open>
  \<open>viper.GetString("api_token")\<close>: a non-empty environment variable wins over the value
  read from the file, which wins over the default \<open>""\<close>.
\<close>

definition GetString_api_token :: "config_env \<Rightarrow> string" where
  "GetString_api_token env =
     (let from_file = (case ReadInConfig env of ReadOK (Some t) \<Rightarrow> t | _ \<Rightarrow> '''')
      in case EnvToken env of
           Some v \<Rightarrow> if v \<noteq> '''' then v else from_file
         | None \<Rightarrow> from_file)"

text \<open>
  The type assertion \<open>err.(viper.ConfigFileNotFoundError)\<close> picks one outcome; for every
  other error the function prints a notice. No branch of the \<open>if err != nil\<close> block
  returns.
\<close>

definition LoadConfig :: "config_env \<Rightarrow> string list \<times> (error + Config)" where
  "LoadConfig env =
     (case UserHomeDir env of
        Inl msg \<Rightarrow> ([], Inl (ConfigError (''error getting home directory: '' @ msg)))
      | Inr homeDir \<Rightarrow>
          (case (if ConfigDirMissing env then MkdirAll env else None) of
             Some msg \<Rightarrow>
               ([], Inl (ConfigError (''error creating config directory: '' @ msg)))
           | None \<Rightarrow>
               (let out =
                  (case ReadInConfig env of
                     ReadOK _ \<Rightarrow> []
                   | ConfigFileNotFoundError \<Rightarrow> []
                   | _ \<Rightarrow> [''Notice: Config file not found, will create a new one when you save settings.'' @ nl])
                in (out, Inr \<lparr>APIToken = GetString_api_token env\<rparr>))))"

section \<open>cmd/hetznerdns: the record commands\<close>

text \<open>
  A command's \<open>Run\<close> function takes the library's Unicode lower-casing (see \<open>ToLower\<close>),
  the environment \<open>LoadConfig\<close> reads, the network behind the client, and its flags; it
  returns what it prints. The lines of a table are
  recorded as they are handed to the \<open>tabwriter\<close>, cells separated by tabs, before the
  columns are aligned.
\<close>

abbreviation token_not_set :: string where
  "token_not_set \<equiv>
     ''API token not set. Please run '' @ sq @ ''hetznerdns config set'' @ sq @
     '' to configure your API token.'' @ nl"

subsection \<open>record list\<close>

fun rows_loop :: "Record list \<Rightarrow> string list" where
  "rows_loop [] = []"
| "rows_loop (record # records) =
     (let ttl = Itoa (Record.TTL record);
          ttl = (if Record.TTL record = 0 then ''default'' else ttl)
      in (Record.ID record @ tab @ Record.Name record @ tab @ Record.Type record @ tab @
          Record.Value record @ tab @ ttl @ nl) # rows_loop records)"

definition recordListCmd ::
  "unicode_lower \<Rightarrow> config_env \<Rightarrow> (Request \<Rightarrow> string + Response) \<Rightarrow> string \<Rightarrow>
   string list" where
  "recordListCmd uni env httpClient zoneIDOrName =
     (case LoadConfig env of
        (out, Inl err) \<Rightarrow> out @ [''Error loading config: '' @ error_text err @ nl]
      | (out, Inr cfg) \<Rightarrow>
          if APIToken cfg = '''' then out @ [token_not_set]
          else
            (let client = NewClient (APIToken cfg) httpClient
             in case resolveZoneID uni client zoneIDOrName of
                  (out2, Inl err) \<Rightarrow> out @ out2 @ [''Error: '' @ error_text err @ nl]
                | (out2, Inr zoneID) \<Rightarrow>
                    (case GetRecords client zoneID of
                       Inl err \<Rightarrow>
                         out @ out2 @ [''Error fetching records: '' @ error_text err @ nl]
                     | Inr records \<Rightarrow>
                         if length records = 0
                         then out @ out2 @ [''No records found for this zone.'' @ nl]
                         else out @ out2 @
                              [''ID'' @ tab @ ''NAME'' @ tab @ ''TYPE'' @ tab @ ''VALUE'' @ tab @
                               ''TTL'' @ nl] @
                              rows_loop records)))"

subsection \<open>record update\<close>

text \<open>
  The flags of \<open>record update\<close>: the values \<open>GetString\<close> and \<open>GetInt\<close> return (the default
  \<open>""\<close> or \<open>0\<close> for a flag that was not given) and \<open>cmd.Flags().Changed("ttl")\<close>.
\<close>

record update_flags =
  flag_id :: string
  flag_zone :: string
  flag_name :: string
  flag_type :: string
  flag_value :: string
  flag_ttl :: int
  ttl_changed :: bool

text \<open>The record \<open>recordUpdateCmd\<close> builds once the zone is resolved.\<close>

definition update_record :: "update_flags \<Rightarrow> string \<Rightarrow> Record" where
  "update_record flags zoneID =
     (let record = Record_zero\<lparr>Record.ID := flag_id flags, Record.ZoneID := zoneID\<rparr>;
          record = (if flag_name flags \<noteq> ''''
                    then record\<lparr>Record.Name := flag_name flags\<rparr> else record);
          record = (if flag_type flags \<noteq> ''''
                    then record\<lparr>Record.Type := flag_type flags\<rparr> else record);
          record = (if flag_value flags \<noteq> ''''
                    then record\<lparr>Record.Value := flag_value flags\<rparr> else record);
          record = (if ttl_changed flags
                    then record\<lparr>Record.TTL := flag_ttl flags\<rparr> else record)
      in record)"

definition recordUpdateCmd ::
  "unicode_lower \<Rightarrow> config_env \<Rightarrow> (Request \<Rightarrow> string + Response) \<Rightarrow> update_flags \<Rightarrow>
   string list" where
  "recordUpdateCmd uni env httpClient flags =
     (case LoadConfig env of
        (out, Inl err) \<Rightarrow> out @ [''Error loading config: '' @ error_text err @ nl]
      | (out, Inr cfg) \<Rightarrow>
          if APIToken cfg = '''' then out @ [token_not_set]
          else
            (let client = NewClient (APIToken cfg) httpClient
             in case resolveZoneID uni client (flag_zone flags) of
                  (out2, Inl err) \<Rightarrow> out @ out2 @ [''Error: '' @ error_text err @ nl]
                | (out2, Inr zoneID) \<Rightarrow>
                    (case UpdateRecord client (update_record flags zoneID) of
                       Inl err \<Rightarrow>
                         out @ out2 @ [''Error updating record: '' @ error_text err @ nl]
                     | Inr updatedRecord \<Rightarrow>
                         out @ out2 @
                         [''Record updated successfully: '' @ Record.ID updatedRecord @ nl])))"

section \<open>Notions used to state the properties\<close>

text \<open>
  Two bytes that are equal, or the upper-case and lower-case form of one ASCII letter; two
  strings that differ only by ASCII letter case; and two strings that differ only by
  ASCII letter case and/or by one dot at the end of one of them.
\<close>

definition is_upper :: "char \<Rightarrow> bool" where
  "is_upper c = (65 \<le> (of_char c :: nat) \<and> (of_char c :: nat) \<le> 90)"

definition same_letter :: "char \<Rightarrow> char \<Rightarrow> bool" where
  "same_letter a b =
     (a = b \<or> (is_upper a \<and> (of_char b :: nat) = of_char a + 32)
            \<or> (is_upper b \<and> (of_char a :: nat) = of_char b + 32))"

definition differ_by_case :: "string \<Rightarrow> string \<Rightarrow> bool" where
  "differ_by_case s t = list_all2 same_letter s t"

definition differ_by_case_or_dot :: "string \<Rightarrow> string \<Rightarrow> bool" where
  "differ_by_case_or_dot s t =
     (differ_by_case s t \<or> differ_by_case (s @ ''.'') t \<or> differ_by_case s (t @ ''.''))"

text \<open>
  The same, where the string that lacks the dot does not itself end in a dot: one string
  has exactly one more trailing dot than the other, which has none.
\<close>

definition differ_by_case_or_only_dot :: "string \<Rightarrow> string \<Rightarrow> bool" where
  "differ_by_case_or_only_dot s t =
     (differ_by_case s t
      \<or> (\<not> HasSuffix s ''.'' \<and> differ_by_case (s @ ''.'') t)
      \<or> (\<not> HasSuffix t ''.'' \<and> differ_by_case s (t @ ''.'')))"

text \<open>
  A property of the library's Unicode lower-casing that name matching relies on for
  strings with non-ASCII bytes: two strings that differ only by ASCII letter case are
  lower-cased to the same string. (\<open>strings.Map(unicode.ToLower, s)\<close> has it: an ASCII byte
  is always decoded as a rune of its own, and \<open>unicode.ToLower\<close> maps \<open>'A'\<close> .. \<open>'Z'\<close> to
  \<open>'a'\<close> .. \<open>'z'\<close> and keeps \<open>'a'\<close> .. \<open>'z'\<close>.)
\<close>

definition respects_ascii_case :: "unicode_lower \<Rightarrow> bool" where
  "respects_ascii_case uni = (\<forall>s t. differ_by_case s t \<longrightarrow> uni s = uni t)"

text \<open>The objects among the elements of a JSON array, and the members of an object.\<close>

definition is_object :: "json \<Rightarrow> bool" where
  "is_object j = (case j of JObject _ \<Rightarrow> True | _ \<Rightarrow> False)"

definition members :: "json \<Rightarrow> (string \<times> json) list" where
  "members j = (case j of JObject kvs \<Rightarrow> kvs | _ \<Rightarrow> [])"

text \<open>The line \<open>resolveZoneID\<close> prints for a zone on its failure path.\<close>

definition zone_line :: "Zone \<Rightarrow> string" where
  "zone_line zone = ''- '' @ Zone.Name zone @ '' (ID: '' @ Zone.ID zone @ '')'' @ nl"

text \<open>
  Example data: a client whose network answers every request with one response, and two
  zones, the first of which is named like the identifier of the second.
\<close>

definition fixed_client :: "int \<Rightarrow> string \<Rightarrow> string + json \<Rightarrow> Client" where
  "fixed_client status body parsed =
     \<lparr>apiToken = ''token'',
      Do = (\<lambda>req. Inr \<lparr>StatusCode = status, Body = body, Json = parsed\<rparr>)\<rparr>"

definition two_zones_doc :: json where
  "two_zones_doc =
     JObject [(''zones'', JArray
       [JObject [(''id'', JString ''z2''), (''name'', JString ''EXAMPLE.COM'')],
        JObject [(''id'', JString ''example.com''), (''name'', JString ''other.org'')]])]"

definition two_zones :: "Zone list" where
  "two_zones =
     [\<lparr>Zone.ID = ''z2'', Zone.Name = ''EXAMPLE.COM'', Zone.TTL = 0, Zone.RecordsCount = 0\<rparr>,
      \<lparr>Zone.ID = ''example.com'', Zone.Name = ''other.org'', Zone.TTL = 0,
       Zone.RecordsCount = 0\<rparr>]"

text \<open>
  A record list with a complete record, an element that is not an object, and a record
  without \<open>value\<close> and \<open>ttl\<close>; and a document with neither \<open>records\<close> nor \<open>zones\<close>.
\<close>

definition records_doc :: json where
  "records_doc =
     JObject [(''records'', JArray
       [JObject [(''id'', JString ''r1''), (''type'', JString ''A''), (''name'', JString ''www''),
                 (''value'', JString ''192.168.1.1''), (''ttl'', JNumber 3600),
                 (''zone_id'', JString ''z1'')],
        JString ''junk'',
        JObject [(''id'', JString ''r2''), (''type'', JString ''A''), (''name'', JString ''mail''),
                 (''zone_id'', JString ''z1'')]])]"

definition no_list_doc :: json where
  "no_list_doc = JObject [(''meta'', JObject [])]"

text \<open>
  The response to a record mutation that echoes a record; a record to create, without
  identifier and TTL; the flags of \<open>record update\<close> with only \<open>--id\<close> and \<open>--zone\<close> given;
  and an environment whose config file is there but does not parse.
\<close>

definition record_doc :: json where
  "record_doc =
     JObject [(''record'',
       JObject [(''id'', JString ''r1''), (''type'', JString ''A''), (''name'', JString ''www''),
                (''value'', JString ''192.168.1.1''), (''zone_id'', JString ''z1'')])]"

definition new_record :: Record where
  "new_record =
     \<lparr>Record.ID = '''', Record.Type = ''A'', Record.Name = ''www'',
      Record.Value = ''192.168.1.1'', Record.TTL = 0, Record.ZoneID = ''z1'',
      Record.Created = '''', Record.Modified = ''''\<rparr>"

definition only_id_and_zone :: update_flags where
  "only_id_and_zone =
     \<lparr>flag_id = ''r1'', flag_zone = ''example.com'', flag_name = '''', flag_type = '''',
      flag_value = '''', flag_ttl = 0, ttl_changed = False\<rparr>"

definition unparseable_config :: config_env where
  "unparseable_config =
     \<lparr>UserHomeDir = Inr ''/home/user'', ConfigDirMissing = False, MkdirAll = None,
      ReadInConfig = ConfigParseError
        ''While parsing config: yaml: line 1: did not find expected node content'',
      EnvToken = None\<rparr>"

text \<open>
  An environment with a token in the config file, and a network that answers the zones
  request with the two example zones and any other request with the example records; and
  a zone list with one zone of a given name.
\<close>

definition list_env :: config_env where
  "list_env =
     \<lparr>UserHomeDir = Inr ''/home/user'', ConfigDirMissing = False, MkdirAll = None,
      ReadInConfig = ReadOK (Some ''secret''), EnvToken = None\<rparr>"

definition list_network :: "Request \<Rightarrow> string + Response" where
  "list_network req =
     (if URL req = baseURL @ ''/zones''
      then Inr \<lparr>StatusCode = 200, Body = '''', Json = Inr two_zones_doc\<rparr>
      else Inr \<lparr>StatusCode = 200, Body = '''', Json = Inr records_doc\<rparr>)"

definition single_zone_doc :: "string \<Rightarrow> json" where
  "single_zone_doc name =
     JObject [(''zones'', JArray [JObject [(''id'', JString ''z1''), (''name'', JString name)]])]"

text \<open>
  An example of the library's Unicode lower-casing, enough for ASCII and the letters of
  Latin-1: the two-byte UTF-8 sequence \<open>0xC3 b\<close> with \<open>b\<close> from \<open>0x80\<close> to \<open>0x9E\<close>, but not
  \<open>0x97\<close> (the multiplication sign), is an upper-case letter \<open>U+00C0\<close> .. \<open>U+00DE\<close>, whose
  lower-case form is \<open>0xC3 (b + 0x20)\<close>; an upper-case ASCII letter is lower-cased; every
  other byte is kept. The example names are \<open>muenchen.de\<close> written with u-umlaut, in
  lower case, upper case and mixed case; the letter is the bytes \<open>0xC3 0xBC\<close> in lower
  case and \<open>0xC3 0x9C\<close> in upper case.
\<close>

fun latin1_lower :: unicode_lower where
  "latin1_lower [] = []"
| "latin1_lower [a] = [lower_byte a]"
| "latin1_lower (a # b # cs) =
     (if (of_char a :: nat) = 195 \<and> 128 \<le> (of_char b :: nat) \<and> (of_char b :: nat) \<le> 158 \<and>
         (of_char b :: nat) \<noteq> 151
      then a # char_of ((of_char b :: nat) + 32) # latin1_lower cs
      else lower_byte a # latin1_lower (b # cs))"

definition muenchen_lower :: string where
  "muenchen_lower = ''m'' @ [CHR 0xC3, CHR 0xBC] @ ''nchen.de''"

definition muenchen_upper :: string where
  "muenchen_upper = ''M'' @ [CHR 0xC3, CHR 0x9C] @ ''NCHEN.DE''"

definition muenchen_mixed :: string where
  "muenchen_mixed = ''m'' @ [CHR 0xC3, CHR 0x9C] @ ''nchen.de''"

definition muenchen_input :: string where
  "muenchen_input = ''m'' @ [CHR 0xC3, CHR 0x9C] @ ''nchen.DE''"

definition muenchen_zones_doc :: json where
  "muenchen_zones_doc =
     JObject [(''zones'', JArray
       [JObject [(''id'', JString ''a''), (''name'', JString muenchen_lower)],
        JObject [(''id'', JString ''b''), (''name'', JString muenchen_mixed)]])]"

definition muenchen_zones :: "Zone list" where
  "muenchen_zones =
     [\<lparr>Zone.ID = ''a'', Zone.Name = muenchen_lower, Zone.TTL = 0, Zone.RecordsCount = 0\<rparr>,
      \<lparr>Zone.ID = ''b'', Zone.Name = muenchen_mixed, Zone.TTL = 0, Zone.RecordsCount = 0\<rparr>]"

section \<open>Zone resolution\<close>

lemma id_loop_find: "id_loop zones s = List.find (\<lambda>z. Zone.ID z = s) zones"
  by (induction zones) auto

lemma name_loop_find:
  "name_loop uni zones n =
     List.find (\<lambda>z. ToLower uni (TrimSuffix (Zone.Name z) ''.'') = n) zones"
  by (induction zones) auto

lemma available_zones_map: "available_zones zones = map zone_line zones"
  by (induction zones) (auto simp: zone_line_def)

lemma find_id_Some: "List.find (\<lambda>z. Zone.ID z = s) zones = Some z \<Longrightarrow> Zone.ID z = s"
  by (auto simp: find_Some_iff)

lemma GetZones_two_zones: "GetZones (fixed_client 200 '''' (Inr two_zones_doc)) = Inr two_zones"
  by (simp add: fixed_client_def two_zones_doc_def two_zones_def GetZones_def
      GetZones_request_def decode_map_def go_map_def zone_of_map_def as_string_def
      as_float64_def Zone_zero_def)

lemma GetZones_muenchen:
  "GetZones (fixed_client 200 '''' (Inr muenchen_zones_doc)) = Inr muenchen_zones"
  by (simp add: fixed_client_def muenchen_zones_doc_def muenchen_zones_def GetZones_def
      GetZones_request_def decode_map_def go_map_def zone_of_map_def as_string_def
      as_float64_def Zone_zero_def)

text \<open>
  C1. Whatever the library's Unicode lower-casing \<open>uni\<close> is:
  if the provider returns the zones \<open>zones\<close>, \<open>resolveZoneID\<close> returns the identifier of
  the first zone, in the provider's order, whose raw \<open>id\<close> equals the input; only when no
  identifier equals the input does it return the identifier of the first zone whose
  lower-cased name without one trailing dot equals the lower-cased input without one
  trailing dot; otherwise it fails. The identifier phase compares the raw strings, so an
  input equal to the identifier of some zone resolves to that identifier, whatever the
  names of the zones are.
\<close>

theorem resolveZoneID_two_phases:
  assumes "GetZones client = Inr zones"
  shows "snd (resolveZoneID uni client input) =
           (case List.find (\<lambda>z. Zone.ID z = input) zones of
              Some z \<Rightarrow> Inr (Zone.ID z)
            | None \<Rightarrow>
                (case List.find (\<lambda>z. ToLower uni (TrimSuffix (Zone.Name z) ''.'') =
                                      ToLower uni (TrimSuffix input ''.'')) zones of
                   Some z \<Rightarrow> Inr (Zone.ID z)
                 | None \<Rightarrow> Inl (NotFoundError
                     (''could not find zone with ID or name '' @ sq @ input @ sq))))
         \<and> ((\<exists>z \<in> set zones. Zone.ID z = input) \<longrightarrow>
              snd (resolveZoneID uni client input) = Inr input)"
proof -
  have main: "snd (resolveZoneID uni client input) =
           (case List.find (\<lambda>z. Zone.ID z = input) zones of
              Some z \<Rightarrow> Inr (Zone.ID z)
            | None \<Rightarrow>
                (case List.find (\<lambda>z. ToLower uni (TrimSuffix (Zone.Name z) ''.'') =
                                      ToLower uni (TrimSuffix input ''.'')) zones of
                   Some z \<Rightarrow> Inr (Zone.ID z)
                 | None \<Rightarrow> Inl (NotFoundError
                     (''could not find zone with ID or name '' @ sq @ input @ sq))))"
    using assms
    by (simp add: resolveZoneID_def id_loop_find name_loop_find Let_def split: option.splits)
  have "snd (resolveZoneID uni client input) = Inr input" if "\<exists>z \<in> set zones. Zone.ID z = input"
  proof -
    from that obtain z where found: "List.find (\<lambda>z. Zone.ID z = input) zones = Some z"
      by (cases "List.find (\<lambda>z. Zone.ID z = input) zones") (auto simp: find_None_iff)
    from found have "Zone.ID z = input" by (rule find_id_Some)
    with found main show ?thesis by simp
  qed
  with main show ?thesis by blast
qed

text \<open>
  The input \<open>example.com\<close> is the identifier of the second zone and, after normalization,
  the name of the first: it resolves to the identifier \<open>example.com\<close>. With the example
  lower-casing of Latin-1, the upper-case input \<open>MUENCHEN.DE\<close> (with U-umlaut) resolves
  to the first zone, named in lower case, through the name phase.
\<close>

theorem resolveZoneID_two_phases_witness:
  "GetZones (fixed_client 200 '''' (Inr two_zones_doc)) = Inr two_zones
   \<and> (\<exists>z \<in> set two_zones. Zone.ID z = ''example.com'')
   \<and> ToLower latin1_lower (TrimSuffix (Zone.Name (hd two_zones)) ''.'') =
       ToLower latin1_lower (TrimSuffix ''example.com'' ''.'')
   \<and> snd (resolveZoneID latin1_lower (fixed_client 200 '''' (Inr two_zones_doc))
            ''example.com'') = Inr ''example.com''
   \<and> GetZones (fixed_client 200 '''' (Inr muenchen_zones_doc)) = Inr muenchen_zones
   \<and> snd (resolveZoneID latin1_lower (fixed_client 200 '''' (Inr muenchen_zones_doc))
            muenchen_upper) = Inr ''a''"
proof -
  have ex: "\<exists>z \<in> set two_zones. Zone.ID z = ''example.com''"
    by (simp add: two_zones_def)
  have norm: "ToLower latin1_lower (TrimSuffix (Zone.Name (hd two_zones)) ''.'') =
              ToLower latin1_lower (TrimSuffix ''example.com'' ''.'')"
    by code_simp
  have r1: "snd (resolveZoneID latin1_lower (fixed_client 200 '''' (Inr two_zones_doc))
                 ''example.com'') = Inr ''example.com''"
    using resolveZoneID_two_phases [OF GetZones_two_zones, of latin1_lower "''example.com''"] ex
    by blast
  have noid: "List.find (\<lambda>z. Zone.ID z = muenchen_upper) muenchen_zones = None"
    by (simp add: muenchen_zones_def muenchen_upper_def)
  have name: "List.find (\<lambda>z. ToLower latin1_lower (TrimSuffix (Zone.Name z) ''.'') =
                              ToLower latin1_lower (TrimSuffix muenchen_upper ''.''))
                muenchen_zones = Some (hd muenchen_zones)"
    by code_simp
  have a: "Zone.ID (hd muenchen_zones) = ''a''"
    by (simp add: muenchen_zones_def)
  have r2: "snd (resolveZoneID latin1_lower (fixed_client 200 '''' (Inr muenchen_zones_doc))
                 muenchen_upper) = Inr ''a''"
    using resolveZoneID_two_phases [OF GetZones_muenchen, of latin1_lower muenchen_upper]
      noid name a
    by simp
  from GetZones_two_zones ex norm r1 GetZones_muenchen r2 show ?thesis by blast
qed

text \<open>
  C2. Whatever the library's Unicode lower-casing \<open>uni\<close> is:
  if the provider returns the zones \<open>zones\<close> and the input equals no zone's identifier
  and, after normalization, no zone's normalized name, then \<open>resolveZoneID\<close> fails with
  the not-found error; it returns no identifier as a success, in particular not the empty
  one; and before failing it prints one line for every zone, in order, with the zone's
  name and identifier.
\<close>

theorem resolveZoneID_not_found:
  assumes "GetZones client = Inr zones"
    and "\<forall>z \<in> set zones. Zone.ID z \<noteq> input"
    and "\<forall>z \<in> set zones. ToLower uni (TrimSuffix (Zone.Name z) ''.'') \<noteq>
                          ToLower uni (TrimSuffix input ''.'')"
  shows "resolveZoneID uni client input =
           ([''Attempting to resolve '' @ sq @ input @ sq @ '' as a zone name...'' @ nl,
             ''Could not find any zone matching '' @ sq @ input @ sq @ nl,
             nl @ ''Available zones:'' @ nl] @
            map zone_line zones,
            Inl (NotFoundError (''could not find zone with ID or name '' @ sq @ input @ sq)))
         \<and> (\<forall>ident. snd (resolveZoneID uni client input) \<noteq> Inr ident)
         \<and> snd (resolveZoneID uni client input) \<noteq> Inr ''''"
proof -
  from assms(2) have noid: "List.find (\<lambda>z. Zone.ID z = input) zones = None"
    by (simp add: find_None_iff)
  from assms(3) have noname:
    "List.find (\<lambda>z. ToLower uni (TrimSuffix (Zone.Name z) ''.'') =
                     ToLower uni (TrimSuffix input ''.'')) zones = None"
    by (simp add: find_None_iff)
  have "resolveZoneID uni client input =
           ([''Attempting to resolve '' @ sq @ input @ sq @ '' as a zone name...'' @ nl,
             ''Could not find any zone matching '' @ sq @ input @ sq @ nl,
             nl @ ''Available zones:'' @ nl] @
            map zone_line zones,
            Inl (NotFoundError (''could not find zone with ID or name '' @ sq @ input @ sq)))"
    using assms(1) noid noname
    by (simp add: resolveZoneID_def id_loop_find name_loop_find available_zones_map Let_def)
  then show ?thesis by simp
qed

text \<open>The empty input matches neither of the two example zones.\<close>

theorem resolveZoneID_not_found_witness:
  "GetZones (fixed_client 200 '''' (Inr two_zones_doc)) = Inr two_zones
   \<and> list_all (\<lambda>z. Zone.ID z \<noteq> '''') two_zones
   \<and> list_all (\<lambda>z. ToLower latin1_lower (TrimSuffix (Zone.Name z) ''.'') \<noteq>
                      ToLower latin1_lower (TrimSuffix '''' ''.'')) two_zones
   \<and> snd (resolveZoneID latin1_lower (fixed_client 200 '''' (Inr two_zones_doc)) '''') =
       Inl (NotFoundError (''could not find zone with ID or name '' @ sq @ sq))
   \<and> fst (resolveZoneID latin1_lower (fixed_client 200 '''' (Inr two_zones_doc)) '''') =
       [''Attempting to resolve '' @ sq @ sq @ '' as a zone name...'' @ nl,
        ''Could not find any zone matching '' @ sq @ sq @ nl,
        nl @ ''Available zones:'' @ nl,
        ''- EXAMPLE.COM (ID: z2)'' @ nl,
        ''- other.org (ID: example.com)'' @ nl]"
proof -
  have noid: "\<forall>z \<in> set two_zones. Zone.ID z \<noteq> ''''"
    by (simp add: two_zones_def)
  have "list_all (\<lambda>z. ToLower latin1_lower (TrimSuffix (Zone.Name z) ''.'') \<noteq>
                      ToLower latin1_lower (TrimSuffix '''' ''.'')) two_zones"
    by code_simp
  then have noname:
    "\<forall>z \<in> set two_zones. ToLower latin1_lower (TrimSuffix (Zone.Name z) ''.'') \<noteq>
                          ToLower latin1_lower (TrimSuffix '''' ''.'')"
    by (simp add: list_all_iff)
  have lines: "map zone_line two_zones =
               [''- EXAMPLE.COM (ID: z2)'' @ nl, ''- other.org (ID: example.com)'' @ nl]"
    by (simp add: two_zones_def zone_line_def)
  from resolveZoneID_not_found [OF GetZones_two_zones noid noname] lines
  have "resolveZoneID latin1_lower (fixed_client 200 '''' (Inr two_zones_doc)) '''' =
          ([''Attempting to resolve '' @ sq @ sq @ '' as a zone name...'' @ nl,
            ''Could not find any zone matching '' @ sq @ sq @ nl,
            nl @ ''Available zones:'' @ nl,
            ''- EXAMPLE.COM (ID: z2)'' @ nl,
            ''- other.org (ID: example.com)'' @ nl],
           Inl (NotFoundError (''could not find zone with ID or name '' @ sq @ sq)))"
    by simp
  with GetZones_two_zones noid noname show ?thesis by (simp add: list_all_iff)
qed

section \<open>Lenient decoding of lists\<close>

lemma zones_loop_map:
  "zones_loop elems acc =
     acc @ map (\<lambda>j. zone_of_map (go_map (members j))) (filter is_object elems)"
proof (induction elems arbitrary: acc)
  case Nil
  show ?case by simp
next
  case (Cons e es)
  show ?case by (cases e) (simp_all add: Cons.IH is_object_def members_def)
qed

lemma records_loop_map:
  "records_loop elems acc =
     acc @ map (\<lambda>j. record_of_map (go_map (members j))) (filter is_object elems)"
proof (induction elems arbitrary: acc)
  case Nil
  show ?case by simp
next
  case (Cons e es)
  show ?case by (cases e) (simp_all add: Cons.IH is_object_def members_def)
qed

lemma GetRecords_ok:
  assumes "Do c (GetRecords_request c zoneID) = Inr resp" and "StatusCode resp = 200"
    and "decode_map (Json resp) = Inr result"
  shows "GetRecords c zoneID =
           (case result ''records'' of
              Some (JArray elems) \<Rightarrow>
                Inr (map (\<lambda>j. record_of_map (go_map (members j))) (filter is_object elems))
            | _ \<Rightarrow> Inl (DecodeError
                ''unexpected response format: records field not found or not an array''))"
  using assms by (simp add: GetRecords_def records_loop_map split: option.split json.split)

lemma GetZones_ok:
  assumes "Do c (GetZones_request c) = Inr resp" and "StatusCode resp = 200"
    and "decode_map (Json resp) = Inr result"
  shows "GetZones c =
           (case result ''zones'' of
              Some (JArray elems) \<Rightarrow>
                Inr (map (\<lambda>j. zone_of_map (go_map (members j))) (filter is_object elems))
            | _ \<Rightarrow> Inl (DecodeError
                ''unexpected response format: zones field not found or not an array''))"
  using assms by (simp add: GetZones_def zones_loop_map split: option.split json.split)

lemma record_of_map_eq:
  "record_of_map m =
     \<lparr>Record.ID = (case as_string m ''id'' of Some s \<Rightarrow> s | None \<Rightarrow> ''''),
      Record.Type = (case as_string m ''type'' of Some s \<Rightarrow> s | None \<Rightarrow> ''''),
      Record.Name = (case as_string m ''name'' of Some s \<Rightarrow> s | None \<Rightarrow> ''''),
      Record.Value = (case as_string m ''value'' of Some s \<Rightarrow> s | None \<Rightarrow> ''''),
      Record.TTL = (case as_float64 m ''ttl'' of Some f \<Rightarrow> float64_to_int f | None \<Rightarrow> 0),
      Record.ZoneID = (case as_string m ''zone_id'' of Some s \<Rightarrow> s | None \<Rightarrow> ''''),
      Record.Created = '''', Record.Modified = ''''\<rparr>"
  by (simp add: record_of_map_def Record_zero_def Let_def split: option.split)

lemma zone_of_map_eq:
  "zone_of_map m =
     \<lparr>Zone.ID = (case as_string m ''id'' of Some s \<Rightarrow> s | None \<Rightarrow> ''''),
      Zone.Name = (case as_string m ''name'' of Some s \<Rightarrow> s | None \<Rightarrow> ''''),
      Zone.TTL = (case as_float64 m ''ttl'' of Some f \<Rightarrow> float64_to_int f | None \<Rightarrow> 0),
      Zone.RecordsCount =
        (case as_float64 m ''records_count'' of Some f \<Rightarrow> float64_to_int f | None \<Rightarrow> 0)\<rparr>"
  by (simp add: zone_of_map_def Zone_zero_def Let_def split: option.split)

lemma as_string_None: "m k = None \<Longrightarrow> as_string m k = None"
  by (simp add: as_string_def)

lemma as_float64_None: "m k = None \<Longrightarrow> as_float64 m k = None"
  by (simp add: as_float64_def)





text \<open>
  A number beyond the range: \<open>1e19\<close> is converted to the least \<open>int64\<close>, not to its
  truncated value.
\<close>

lemma float64_to_int_1e19: "float64_to_int (10 ^ 19) = - 9223372036854775808"
  by code_simp

text \<open>
  C3. When \<open>GetRecords\<close> (\<open>GetZones\<close>) has fetched a response with status 200 whose body
  decodes to a map: if the map has no \<open>records\<close> (\<open>zones\<close>) key, or the value under it is
  not an array, the call fails with the decode error; if it is an array, the call succeeds
  with one entry for every element that is an object, in order, the other elements being
  skipped. An object that lacks a field yields an entry that holds the zero value in that
  field.
\<close>

theorem list_decode_two_tiers:
  "(Do c (GetRecords_request c zoneID) = Inr resp \<and> StatusCode resp = 200 \<and>
    decode_map (Json resp) = Inr result \<longrightarrow>
      ((\<forall>elems. result ''records'' \<noteq> Some (JArray elems)) \<longrightarrow>
         GetRecords c zoneID = Inl (DecodeError
           ''unexpected response format: records field not found or not an array''))
    \<and> (\<forall>elems. result ''records'' = Some (JArray elems) \<longrightarrow>
         GetRecords c zoneID =
           Inr (map (\<lambda>j. record_of_map (go_map (members j))) (filter is_object elems))))
   \<and> (Do c (GetZones_request c) = Inr zresp \<and> StatusCode zresp = 200 \<and>
      decode_map (Json zresp) = Inr zresult \<longrightarrow>
      ((\<forall>elems. zresult ''zones'' \<noteq> Some (JArray elems)) \<longrightarrow>
         GetZones c = Inl (DecodeError
           ''unexpected response format: zones field not found or not an array''))
    \<and> (\<forall>elems. zresult ''zones'' = Some (JArray elems) \<longrightarrow>
         GetZones c =
           Inr (map (\<lambda>j. zone_of_map (go_map (members j))) (filter is_object elems))))
   \<and> (m ''id'' = None \<longrightarrow> Record.ID (record_of_map m) = '''')
   \<and> (m ''type'' = None \<longrightarrow> Record.Type (record_of_map m) = '''')
   \<and> (m ''name'' = None \<longrightarrow> Record.Name (record_of_map m) = '''')
   \<and> (m ''value'' = None \<longrightarrow> Record.Value (record_of_map m) = '''')
   \<and> (m ''ttl'' = None \<longrightarrow> Record.TTL (record_of_map m) = 0)
   \<and> (m ''zone_id'' = None \<longrightarrow> Record.ZoneID (record_of_map m) = '''')
   \<and> (m ''id'' = None \<longrightarrow> Zone.ID (zone_of_map m) = '''')
   \<and> (m ''name'' = None \<longrightarrow> Zone.Name (zone_of_map m) = '''')
   \<and> (m ''ttl'' = None \<longrightarrow> Zone.TTL (zone_of_map m) = 0)
   \<and> (m ''records_count'' = None \<longrightarrow> Zone.RecordsCount (zone_of_map m) = 0)"
proof -
  have r: "GetRecords c zoneID =
           (case result ''records'' of
              Some (JArray elems) \<Rightarrow>
                Inr (map (\<lambda>j. record_of_map (go_map (members j))) (filter is_object elems))
            | _ \<Rightarrow> Inl (DecodeError
                ''unexpected response format: records field not found or not an array''))"
    if "Do c (GetRecords_request c zoneID) = Inr resp" "StatusCode resp = 200"
       "decode_map (Json resp) = Inr result"
    using that by (rule GetRecords_ok)
  have r1: "GetRecords c zoneID = Inl (DecodeError
           ''unexpected response format: records field not found or not an array'')"
    if "Do c (GetRecords_request c zoneID) = Inr resp \<and> StatusCode resp = 200 \<and>
        decode_map (Json resp) = Inr result"
       "\<forall>elems. result ''records'' \<noteq> Some (JArray elems)"
    using r that by (simp split: option.split json.split)
  have r2: "GetRecords c zoneID =
           Inr (map (\<lambda>j. record_of_map (go_map (members j))) (filter is_object elems))"
    if "Do c (GetRecords_request c zoneID) = Inr resp \<and> StatusCode resp = 200 \<and>
        decode_map (Json resp) = Inr result"
       "result ''records'' = Some (JArray elems)" for elems
    using r that by simp
  have z: "GetZones c =
           (case zresult ''zones'' of
              Some (JArray elems) \<Rightarrow>
                Inr (map (\<lambda>j. zone_of_map (go_map (members j))) (filter is_object elems))
            | _ \<Rightarrow> Inl (DecodeError
                ''unexpected response format: zones field not found or not an array''))"
    if "Do c (GetZones_request c) = Inr zresp" "StatusCode zresp = 200"
       "decode_map (Json zresp) = Inr zresult"
    using that by (rule GetZones_ok)
  have z1: "GetZones c = Inl (DecodeError
           ''unexpected response format: zones field not found or not an array'')"
    if "Do c (GetZones_request c) = Inr zresp \<and> StatusCode zresp = 200 \<and>
        decode_map (Json zresp) = Inr zresult"
       "\<forall>elems. zresult ''zones'' \<noteq> Some (JArray elems)"
    using z that by (simp split: option.split json.split)
  have z2: "GetZones c =
           Inr (map (\<lambda>j. zone_of_map (go_map (members j))) (filter is_object elems))"
    if "Do c (GetZones_request c) = Inr zresp \<and> StatusCode zresp = 200 \<and>
        decode_map (Json zresp) = Inr zresult"
       "zresult ''zones'' = Some (JArray elems)" for elems
    using z that by simp
  have f: "m k = None \<Longrightarrow> as_string m k = None" "m k = None \<Longrightarrow> as_float64 m k = None" for k
    by (simp_all add: as_string_def as_float64_def)
  have rf: "m ''id'' = None \<longrightarrow> Record.ID (record_of_map m) = ''''"
       "m ''type'' = None \<longrightarrow> Record.Type (record_of_map m) = ''''"
       "m ''name'' = None \<longrightarrow> Record.Name (record_of_map m) = ''''"
       "m ''value'' = None \<longrightarrow> Record.Value (record_of_map m) = ''''"
       "m ''ttl'' = None \<longrightarrow> Record.TTL (record_of_map m) = 0"
       "m ''zone_id'' = None \<longrightarrow> Record.ZoneID (record_of_map m) = ''''"
    by (simp_all add: record_of_map_eq f)
  have zf: "m ''id'' = None \<longrightarrow> Zone.ID (zone_of_map m) = ''''"
       "m ''name'' = None \<longrightarrow> Zone.Name (zone_of_map m) = ''''"
       "m ''ttl'' = None \<longrightarrow> Zone.TTL (zone_of_map m) = 0"
       "m ''records_count'' = None \<longrightarrow> Zone.RecordsCount (zone_of_map m) = 0"
    by (simp_all add: zone_of_map_eq f)
  show ?thesis
  proof (intro conjI)
    show "Do c (GetRecords_request c zoneID) = Inr resp \<and> StatusCode resp = 200 \<and>
        decode_map (Json resp) = Inr result \<longrightarrow>
      ((\<forall>elems. result ''records'' \<noteq> Some (JArray elems)) \<longrightarrow>
         GetRecords c zoneID = Inl (DecodeError
           ''unexpected response format: records field not found or not an array''))
      \<and> (\<forall>elems. result ''records'' = Some (JArray elems) \<longrightarrow>
         GetRecords c zoneID =
           Inr (map (\<lambda>j. record_of_map (go_map (members j))) (filter is_object elems)))"
      using r1 r2 by blast
    show "Do c (GetZones_request c) = Inr zresp \<and> StatusCode zresp = 200 \<and>
      decode_map (Json zresp) = Inr zresult \<longrightarrow>
      ((\<forall>elems. zresult ''zones'' \<noteq> Some (JArray elems)) \<longrightarrow>
         GetZones c = Inl (DecodeError
           ''unexpected response format: zones field not found or not an array''))
      \<and> (\<forall>elems. zresult ''zones'' = Some (JArray elems) \<longrightarrow>
         GetZones c =
           Inr (map (\<lambda>j. zone_of_map (go_map (members j))) (filter is_object elems)))"
      using z1 z2 by blast
  qed (rule rf zf)+
qed

lemma float64_3600: "float64_to_int 3600 = 3600"
  by code_simp

text \<open>
  The example list yields two entries, the second with empty \<open>value\<close>; the document
  without the list fails both calls.
\<close>

theorem list_decode_two_tiers_witness:
  "GetRecords (fixed_client 200 '''' (Inr records_doc)) ''z1'' =
     Inr [\<lparr>Record.ID = ''r1'', Record.Type = ''A'', Record.Name = ''www'',
           Record.Value = ''192.168.1.1'', Record.TTL = 3600, Record.ZoneID = ''z1'',
           Record.Created = '''', Record.Modified = ''''\<rparr>,
          \<lparr>Record.ID = ''r2'', Record.Type = ''A'', Record.Name = ''mail'',
           Record.Value = '''', Record.TTL = 0, Record.ZoneID = ''z1'',
           Record.Created = '''', Record.Modified = ''''\<rparr>]
   \<and> GetRecords (fixed_client 200 '''' (Inr no_list_doc)) ''z1'' =
       Inl (DecodeError ''unexpected response format: records field not found or not an array'')
   \<and> GetZones (fixed_client 200 '''' (Inr two_zones_doc)) = Inr two_zones
   \<and> GetZones (fixed_client 200 '''' (Inr no_list_doc)) =
       Inl (DecodeError ''unexpected response format: zones field not found or not an array'')
   \<and> Record.Value (record_of_map (go_map [(''id'', JString ''r2'')])) = ''''"
proof -
  let ?resp = "\<lambda>d. \<lparr>StatusCode = 200, Body = '''', Json = Inr d\<rparr>"
  have a: "GetRecords (fixed_client 200 '''' (Inr records_doc)) ''z1'' =
           Inr (map (\<lambda>j. record_of_map (go_map (members j))) (filter is_object
             [JObject [(''id'', JString ''r1''), (''type'', JString ''A''),
                       (''name'', JString ''www''), (''value'', JString ''192.168.1.1''),
                       (''ttl'', JNumber 3600), (''zone_id'', JString ''z1'')],
              JString ''junk'',
              JObject [(''id'', JString ''r2''), (''type'', JString ''A''),
                       (''name'', JString ''mail''), (''zone_id'', JString ''z1'')]]))"
    using list_decode_two_tiers [where c = "fixed_client 200 '''' (Inr records_doc)"
        and zoneID = "''z1''" and resp = "?resp records_doc"
        and result = "go_map [(''records'', JArray
             [JObject [(''id'', JString ''r1''), (''type'', JString ''A''),
                       (''name'', JString ''www''), (''value'', JString ''192.168.1.1''),
                       (''ttl'', JNumber 3600), (''zone_id'', JString ''z1'')],
              JString ''junk'',
              JObject [(''id'', JString ''r2''), (''type'', JString ''A''),
                       (''name'', JString ''mail''), (''zone_id'', JString ''z1'')]])]"]
    by (simp add: fixed_client_def records_doc_def decode_map_def go_map_def)
  have b: "GetRecords (fixed_client 200 '''' (Inr no_list_doc)) ''z1'' =
       Inl (DecodeError ''unexpected response format: records field not found or not an array'')"
    using list_decode_two_tiers [where c = "fixed_client 200 '''' (Inr no_list_doc)"
        and zoneID = "''z1''" and resp = "?resp no_list_doc"
        and result = "go_map [(''meta'', JObject [])]"]
    by (simp add: fixed_client_def no_list_doc_def decode_map_def go_map_def)
  have c: "GetZones (fixed_client 200 '''' (Inr no_list_doc)) =
       Inl (DecodeError ''unexpected response format: zones field not found or not an array'')"
    using list_decode_two_tiers [where c = "fixed_client 200 '''' (Inr no_list_doc)"
        and zresp = "?resp no_list_doc"
        and zresult = "go_map [(''meta'', JObject [])]"]
    by (simp add: fixed_client_def no_list_doc_def decode_map_def go_map_def)
  have d: "Record.Value (record_of_map (go_map [(''id'', JString ''r2'')])) = ''''"
    using list_decode_two_tiers [where m = "go_map [(''id'', JString ''r2'')]"]
    by (simp add: go_map_def)
  have e: "map (\<lambda>j. record_of_map (go_map (members j))) (filter is_object
             [JObject [(''id'', JString ''r1''), (''type'', JString ''A''),
                       (''name'', JString ''www''), (''value'', JString ''192.168.1.1''),
                       (''ttl'', JNumber 3600), (''zone_id'', JString ''z1'')],
              JString ''junk'',
              JObject [(''id'', JString ''r2''), (''type'', JString ''A''),
                       (''name'', JString ''mail''), (''zone_id'', JString ''z1'')]]) =
         [\<lparr>Record.ID = ''r1'', Record.Type = ''A'', Record.Name = ''www'',
           Record.Value = ''192.168.1.1'', Record.TTL = 3600, Record.ZoneID = ''z1'',
           Record.Created = '''', Record.Modified = ''''\<rparr>,
          \<lparr>Record.ID = ''r2'', Record.Type = ''A'', Record.Name = ''mail'',
           Record.Value = '''', Record.TTL = 0, Record.ZoneID = ''z1'',
           Record.Created = '''', Record.Modified = ''''\<rparr>]"
    by (simp add: is_object_def members_def go_map_def record_of_map_eq as_string_def
        as_float64_def float64_3600)
  from a b c d e GetZones_two_zones show ?thesis by simp
qed



section \<open>Record mutations\<close>

lemma decode_record_not_ApiError: "decode_record resp \<noteq> Inl (ApiError body status)"
  by (simp add: decode_record_def decode_map_def split: sum.split json.split option.split)

lemma decode_record_ok:
  "decode_map (Json resp) = Inr result \<Longrightarrow> result ''record'' = Some (JObject rd) \<Longrightarrow>
   decode_record resp = Inr (record_of_map (go_map rd))"
  by (simp add: decode_record_def)

text \<open>
  C5. For a response the network returns to the request of a record mutation:
  \<open>CreateRecord\<close> goes on to decode the body exactly when the status is 200 or 201,
  \<open>UpdateRecord\<close> exactly when it is 200, and \<open>DeleteRecord\<close> succeeds exactly when it is
  200 or 204; for every other status each of them fails with the API error made of the
  raw body and the status code. Decoding never produces an API error, and it succeeds
  when the body is a map with a \<open>record\<close> object.
\<close>

theorem mutation_status_codes:
  "(Do c (CreateRecord_request c r) = Inr resp \<longrightarrow>
      (StatusCode resp = 200 \<or> StatusCode resp = 201 \<longrightarrow>
         CreateRecord c r = decode_record resp)
    \<and> (StatusCode resp \<noteq> 200 \<and> StatusCode resp \<noteq> 201 \<longrightarrow>
         CreateRecord c r = Inl (ApiError (Body resp) (StatusCode resp))))
   \<and> (Do c (UpdateRecord_request c r) = Inr uresp \<longrightarrow>
      (StatusCode uresp = 200 \<longrightarrow> UpdateRecord c r = decode_record uresp)
    \<and> (StatusCode uresp \<noteq> 200 \<longrightarrow>
         UpdateRecord c r = Inl (ApiError (Body uresp) (StatusCode uresp))))
   \<and> (Do c (DeleteRecord_request c recordID) = Inr dresp \<longrightarrow>
      (StatusCode dresp = 200 \<or> StatusCode dresp = 204 \<longrightarrow> DeleteRecord c recordID = None)
    \<and> (StatusCode dresp \<noteq> 200 \<and> StatusCode dresp \<noteq> 204 \<longrightarrow>
         DeleteRecord c recordID = Some (ApiError (Body dresp) (StatusCode dresp))))
   \<and> (\<forall>body status. decode_record resp \<noteq> Inl (ApiError body status))
   \<and> (decode_map (Json resp) = Inr result \<and> result ''record'' = Some (JObject rd) \<longrightarrow>
        decode_record resp = Inr (record_of_map (go_map rd)))"
proof (intro conjI)
  show "Do c (CreateRecord_request c r) = Inr resp \<longrightarrow>
      (StatusCode resp = 200 \<or> StatusCode resp = 201 \<longrightarrow>
         CreateRecord c r = decode_record resp)
    \<and> (StatusCode resp \<noteq> 200 \<and> StatusCode resp \<noteq> 201 \<longrightarrow>
         CreateRecord c r = Inl (ApiError (Body resp) (StatusCode resp)))"
    by (auto simp: CreateRecord_def)
  show "Do c (UpdateRecord_request c r) = Inr uresp \<longrightarrow>
      (StatusCode uresp = 200 \<longrightarrow> UpdateRecord c r = decode_record uresp)
    \<and> (StatusCode uresp \<noteq> 200 \<longrightarrow>
         UpdateRecord c r = Inl (ApiError (Body uresp) (StatusCode uresp)))"
    by (auto simp: UpdateRecord_def)
  show "Do c (DeleteRecord_request c recordID) = Inr dresp \<longrightarrow>
      (StatusCode dresp = 200 \<or> StatusCode dresp = 204 \<longrightarrow> DeleteRecord c recordID = None)
    \<and> (StatusCode dresp \<noteq> 200 \<and> StatusCode dresp \<noteq> 204 \<longrightarrow>
         DeleteRecord c recordID = Some (ApiError (Body dresp) (StatusCode dresp)))"
    by (auto simp: DeleteRecord_def)
  show "\<forall>body status. decode_record resp \<noteq> Inl (ApiError body status)"
    by (simp add: decode_record_not_ApiError)
  show "decode_map (Json resp) = Inr result \<and> result ''record'' = Some (JObject rd) \<longrightarrow>
        decode_record resp = Inr (record_of_map (go_map rd))"
    by (simp add: decode_record_ok)
qed

lemma Itoa_404: "Itoa 404 = ''404''"
  by code_simp

text \<open>
  Deleting a record the provider does not know (status 404) gives the API error with the
  provider's body; 204 deletes; 201 creates and 204 does not; 200 updates and 201 does
  not.
\<close>

theorem mutation_status_codes_witness:
  "DeleteRecord (fixed_client 404 ''record not found'' (Inl ''invalid character'')) ''missing'' =
     Some (ApiError ''record not found'' 404)
   \<and> error_text (ApiError ''record not found'' 404) =
       ''API error: record not found, status code: 404''
   \<and> DeleteRecord (fixed_client 204 '''' (Inl ''EOF'')) ''r1'' = None
   \<and> CreateRecord (fixed_client 201 '''' (Inr record_doc)) new_record =
       Inr (new_record\<lparr>Record.ID := ''r1''\<rparr>)
   \<and> CreateRecord (fixed_client 204 ''no content'' (Inr record_doc)) new_record =
       Inl (ApiError ''no content'' 204)
   \<and> UpdateRecord (fixed_client 200 '''' (Inr record_doc)) new_record =
       Inr (new_record\<lparr>Record.ID := ''r1''\<rparr>)
   \<and> UpdateRecord (fixed_client 201 ''created'' (Inr record_doc)) new_record =
       Inl (ApiError ''created'' 201)"
proof -
  let ?rd = "[(''id'', JString ''r1''), (''type'', JString ''A''), (''name'', JString ''www''),
              (''value'', JString ''192.168.1.1''), (''zone_id'', JString ''z1'')]"
  have rec: "record_of_map (go_map ?rd) = new_record\<lparr>Record.ID := ''r1''\<rparr>"
    by (simp add: record_of_map_eq go_map_def as_string_def as_float64_def new_record_def)
  have d1: "DeleteRecord (fixed_client 404 ''record not found'' (Inl ''invalid character''))
              ''missing'' = Some (ApiError ''record not found'' 404)"
    using mutation_status_codes
      [where c = "fixed_client 404 ''record not found'' (Inl ''invalid character'')"
         and recordID = "''missing''"
         and dresp = "\<lparr>StatusCode = 404, Body = ''record not found'',
                         Json = Inl ''invalid character''\<rparr>"]
    by (simp add: fixed_client_def)
  have d2: "DeleteRecord (fixed_client 204 '''' (Inl ''EOF'')) ''r1'' = None"
    using mutation_status_codes
      [where c = "fixed_client 204 '''' (Inl ''EOF'')" and recordID = "''r1''"
         and dresp = "\<lparr>StatusCode = 204, Body = '''', Json = Inl ''EOF''\<rparr>"]
    by (simp add: fixed_client_def)
  have c1: "CreateRecord (fixed_client 201 '''' (Inr record_doc)) new_record =
            Inr (record_of_map (go_map ?rd))"
    using mutation_status_codes
      [where c = "fixed_client 201 '''' (Inr record_doc)" and r = new_record
         and resp = "\<lparr>StatusCode = 201, Body = '''', Json = Inr record_doc\<rparr>"
         and result = "go_map [(''record'', JObject ?rd)]" and rd = ?rd]
    by (simp add: fixed_client_def record_doc_def decode_map_def go_map_def)
  have c2: "CreateRecord (fixed_client 204 ''no content'' (Inr record_doc)) new_record =
            Inl (ApiError ''no content'' 204)"
    using mutation_status_codes
      [where c = "fixed_client 204 ''no content'' (Inr record_doc)" and r = new_record
         and resp = "\<lparr>StatusCode = 204, Body = ''no content'', Json = Inr record_doc\<rparr>"]
    by (simp add: fixed_client_def)
  have u1: "UpdateRecord (fixed_client 200 '''' (Inr record_doc)) new_record =
            Inr (record_of_map (go_map ?rd))"
    using mutation_status_codes
      [where c = "fixed_client 200 '''' (Inr record_doc)" and r = new_record
         and uresp = "\<lparr>StatusCode = 200, Body = '''', Json = Inr record_doc\<rparr>"
         and resp = "\<lparr>StatusCode = 200, Body = '''', Json = Inr record_doc\<rparr>"
         and result = "go_map [(''record'', JObject ?rd)]" and rd = ?rd]
    by (simp add: fixed_client_def record_doc_def decode_map_def go_map_def)
  have u2: "UpdateRecord (fixed_client 201 ''created'' (Inr record_doc)) new_record =
            Inl (ApiError ''created'' 201)"
    using mutation_status_codes
      [where c = "fixed_client 201 ''created'' (Inr record_doc)" and r = new_record
         and uresp = "\<lparr>StatusCode = 201, Body = ''created'', Json = Inr record_doc\<rparr>"]
    by (simp add: fixed_client_def)
  have t: "error_text (ApiError ''record not found'' 404) =
           ''API error: record not found, status code: 404''"
    by (simp add: Itoa_404)
  from d1 d2 c1 c2 u1 u2 t rec show ?thesis by simp
qed

section \<open>Request bodies\<close>

lemma Marshal_keys:
  "fst ` set (members (Marshal r)) =
     {''type'', ''name'', ''value'', ''zone_id''}
     \<union> (if Record.ID r = '''' then {} else {''id''})
     \<union> (if Record.TTL r = 0 then {} else {''ttl''})
     \<union> (if Record.Created r = '''' then {} else {''created''})
     \<union> (if Record.Modified r = '''' then {} else {''modified''})"
  by (auto simp: Marshal_def members_def)

text \<open>
  C7. The body \<open>CreateRecord\<close> sends is the marshalled record, a JSON object. When the
  record's \<open>ID\<close> is empty the object has no \<open>id\<close> member, and when its \<open>TTL\<close> is 0 the
  object has no \<open>ttl\<close> member; a non-empty \<open>ID\<close> and a non-zero \<open>TTL\<close> are sent, and so are
  \<open>type\<close>, \<open>name\<close>, \<open>value\<close> and \<open>zone_id\<close>, always.
\<close>

theorem create_body_omits_empty_id_and_zero_ttl:
  "ReqBody (CreateRecord_request c r) = Some (Marshal r)
   \<and> is_object (Marshal r)
   \<and> (Record.ID r = '''' \<longrightarrow> ''id'' \<notin> fst ` set (members (Marshal r)))
   \<and> (Record.TTL r = 0 \<longrightarrow> ''ttl'' \<notin> fst ` set (members (Marshal r)))
   \<and> (Record.ID r \<noteq> '''' \<longrightarrow>
        map_of (members (Marshal r)) ''id'' = Some (JString (Record.ID r)))
   \<and> (Record.TTL r \<noteq> 0 \<longrightarrow>
        map_of (members (Marshal r)) ''ttl'' = Some (JNumber (of_int (Record.TTL r))))
   \<and> map_of (members (Marshal r)) ''type'' = Some (JString (Record.Type r))
   \<and> map_of (members (Marshal r)) ''name'' = Some (JString (Record.Name r))
   \<and> map_of (members (Marshal r)) ''value'' = Some (JString (Record.Value r))
   \<and> map_of (members (Marshal r)) ''zone_id'' = Some (JString (Record.ZoneID r))"
proof (intro conjI)
  show "ReqBody (CreateRecord_request c r) = Some (Marshal r)"
    by (simp add: CreateRecord_request_def)
  show "is_object (Marshal r)"
    by (simp add: Marshal_def is_object_def)
  show "Record.ID r = '''' \<longrightarrow> ''id'' \<notin> fst ` set (members (Marshal r))"
    by (simp add: Marshal_keys)
  show "Record.TTL r = 0 \<longrightarrow> ''ttl'' \<notin> fst ` set (members (Marshal r))"
    by (simp add: Marshal_keys)
  show "Record.ID r \<noteq> '''' \<longrightarrow>
        map_of (members (Marshal r)) ''id'' = Some (JString (Record.ID r))"
    by (simp add: Marshal_def members_def)
  show "Record.TTL r \<noteq> 0 \<longrightarrow>
        map_of (members (Marshal r)) ''ttl'' = Some (JNumber (of_int (Record.TTL r)))"
    by (simp add: Marshal_def members_def)
  show "map_of (members (Marshal r)) ''type'' = Some (JString (Record.Type r))"
    by (simp add: Marshal_def members_def)
  show "map_of (members (Marshal r)) ''name'' = Some (JString (Record.Name r))"
    by (simp add: Marshal_def members_def)
  show "map_of (members (Marshal r)) ''value'' = Some (JString (Record.Value r))"
    by (simp add: Marshal_def members_def)
  show "map_of (members (Marshal r)) ''zone_id'' = Some (JString (Record.ZoneID r))"
    by (simp add: Marshal_def members_def)
qed

text \<open>The record to create has neither member; with TTL 300 the member is there.\<close>

theorem create_body_omits_empty_id_and_zero_ttl_witness:
  "ReqBody (CreateRecord_request (fixed_client 201 '''' (Inr record_doc)) new_record) =
     Some (JObject [(''type'', JString ''A''), (''name'', JString ''www''),
                    (''value'', JString ''192.168.1.1''), (''zone_id'', JString ''z1'')])
   \<and> Record.ID new_record = '''' \<and> Record.TTL new_record = 0
   \<and> ''id'' \<notin> fst ` set (members (Marshal new_record))
   \<and> ''ttl'' \<notin> fst ` set (members (Marshal new_record))
   \<and> map_of (members (Marshal (new_record\<lparr>Record.TTL := 300\<rparr>))) ''ttl'' = Some (JNumber 300)"
proof -
  have m: "Marshal new_record =
           JObject [(''type'', JString ''A''), (''name'', JString ''www''),
                    (''value'', JString ''192.168.1.1''), (''zone_id'', JString ''z1'')]"
    by (simp add: Marshal_def new_record_def)
  have z: "Record.ID new_record = ''''" "Record.TTL new_record = 0"
    by (simp_all add: new_record_def)
  have t: "map_of (members (Marshal (new_record\<lparr>Record.TTL := 300\<rparr>))) ''ttl'' =
           Some (JNumber 300)"
    using create_body_omits_empty_id_and_zero_ttl [where r = "new_record\<lparr>Record.TTL := 300\<rparr>"]
    by simp
  from create_body_omits_empty_id_and_zero_ttl
         [where c = "fixed_client 201 '''' (Inr record_doc)" and r = new_record] m z t
  show ?thesis by simp
qed

text \<open>
  C8, as stated, fails: an update given only the record's identifier and the zone sends a
  body without a \<open>ttl\<close> member, not a \<open>ttl\<close> of 0.
\<close>

theorem update_body_ttl_counterexample:
  "Record.TTL (update_record only_id_and_zone ''z1'') = 0
   \<and> ReqBody (UpdateRecord_request (fixed_client 200 '''' (Inr record_doc))
        (update_record only_id_and_zone ''z1'')) =
       Some (JObject [(''id'', JString ''r1''), (''type'', JString ''''), (''name'', JString ''''),
                      (''value'', JString ''''), (''zone_id'', JString ''z1'')])
   \<and> ''ttl'' \<notin> fst ` set (members (Marshal (update_record only_id_and_zone ''z1'')))
   \<and> map_of (members (Marshal (update_record only_id_and_zone ''z1''))) ''ttl'' \<noteq>
       Some (JNumber 0)"
  by (simp add: update_record_def only_id_and_zone_def Record_zero_def UpdateRecord_request_def
      Marshal_def members_def)

text \<open>
  C8, amended. \<open>UpdateRecord\<close> sends the marshalled record built from the flags. For an
  update that gives no name, type or value and does not set \<open>--ttl\<close>, the body carries
  \<open>type\<close>, \<open>name\<close> and \<open>value\<close> as empty strings next to \<open>zone_id\<close> (and \<open>id\<close>, unless the
  identifier given is empty); it has no \<open>ttl\<close> member, because a TTL of 0 is left out of
  the body.
\<close>

theorem update_body_of_id_and_zone:
  assumes "flag_name flags = ''''" and "flag_type flags = ''''" and "flag_value flags = ''''"
    and "\<not> ttl_changed flags"
  shows "ReqBody (UpdateRecord_request c (update_record flags zoneID)) =
           Some (JObject
             ((if flag_id flags = '''' then [] else [(''id'', JString (flag_id flags))]) @
              [(''type'', JString ''''), (''name'', JString ''''), (''value'', JString ''''),
               (''zone_id'', JString zoneID)]))
         \<and> ''ttl'' \<notin> fst ` set (members (Marshal (update_record flags zoneID)))
         \<and> map_of (members (Marshal (update_record flags zoneID))) ''name'' = Some (JString '''')
         \<and> map_of (members (Marshal (update_record flags zoneID))) ''type'' = Some (JString '''')
         \<and> map_of (members (Marshal (update_record flags zoneID))) ''value'' = Some (JString '''')"
  using assms
  by (simp add: update_record_def Record_zero_def UpdateRecord_request_def Marshal_def
      members_def)

text \<open>The flags \<open>--id r1 --zone example.com\<close>, once the zone is resolved to \<open>z1\<close>.\<close>

theorem update_body_of_id_and_zone_witness:
  "flag_name only_id_and_zone = '''' \<and> flag_type only_id_and_zone = ''''
   \<and> flag_value only_id_and_zone = '''' \<and> \<not> ttl_changed only_id_and_zone
   \<and> ReqBody (UpdateRecord_request (fixed_client 200 '''' (Inr record_doc))
        (update_record only_id_and_zone ''z1'')) =
       Some (JObject [(''id'', JString ''r1''), (''type'', JString ''''), (''name'', JString ''''),
                      (''value'', JString ''''), (''zone_id'', JString ''z1'')])"
proof -
  have h: "flag_name only_id_and_zone = ''''" "flag_type only_id_and_zone = ''''"
    "flag_value only_id_and_zone = ''''" "\<not> ttl_changed only_id_and_zone"
    by (simp_all add: only_id_and_zone_def)
  have i: "flag_id only_id_and_zone = ''r1''"
    by (simp add: only_id_and_zone_def)
  from update_body_of_id_and_zone [OF h, of "fixed_client 200 '''' (Inr record_doc)" "''z1''"] h i
  show ?thesis by simp
qed

section \<open>LoadConfig\<close>

text \<open>
  Whether \<open>LoadConfig\<close> fails depends on the home directory and on creating the config
  directory only; the outcome of reading the config file never makes it fail.
\<close>

lemma LoadConfig_result:
  "snd (LoadConfig env) =
     (case UserHomeDir env of
        Inl msg \<Rightarrow> Inl (ConfigError (''error getting home directory: '' @ msg))
      | Inr homeDir \<Rightarrow>
          (case (if ConfigDirMissing env then MkdirAll env else None) of
             Some msg \<Rightarrow> Inl (ConfigError (''error creating config directory: '' @ msg))
           | None \<Rightarrow> Inr \<lparr>APIToken = GetString_api_token env\<rparr>))"
  by (simp add: LoadConfig_def Let_def split: sum.split option.split)

text \<open>
  C6. With a home directory, a config directory and a config file that does not parse,
  \<open>LoadConfig\<close> prints its notice and returns a configuration with the default token: it
  does not fail.
\<close>

theorem LoadConfig_unparseable_file_succeeds:
  "LoadConfig unparseable_config =
     ([''Notice: Config file not found, will create a new one when you save settings.'' @ nl],
      Inr \<lparr>APIToken = ''''\<rparr>)"
  by (simp add: LoadConfig_def unparseable_config_def GetString_api_token_def)

section \<open>The record list\<close>

lemma digit_val_digit_char: "d < 10 \<Longrightarrow> digit_val (digit_char d) = d"
  by (simp add: digit_val_def digit_char_def)

lemma is_digit_digit_char: "d < 10 \<Longrightarrow> is_digit (digit_char d)"
  by (simp add: is_digit_def digit_char_def)

lemma dec_val_snoc: "dec_val (s @ [c]) = 10 * dec_val s + digit_val c"
  by (simp add: dec_val_def)

lemma nat_dec_digits: "list_all is_digit (nat_dec n)"
proof (induction n rule: nat_dec.induct)
  case (1 n)
  show ?case
  proof (cases "n < 10")
    case True
    then show ?thesis by (subst nat_dec.simps) (simp add: is_digit_digit_char)
  next
    case False
    with 1 show ?thesis by (subst nat_dec.simps) (simp add: is_digit_digit_char)
  qed
qed

lemma nat_dec_nonempty: "nat_dec n \<noteq> []"
  by (subst nat_dec.simps) simp

lemma dec_val_nat_dec: "dec_val (nat_dec n) = n"
proof (induction n rule: nat_dec.induct)
  case (1 n)
  show ?case
  proof (cases "n < 10")
    case True
    then show ?thesis
      by (subst nat_dec.simps) (simp add: dec_val_def digit_val_digit_char)
  next
    case False
    with 1 have "dec_val (nat_dec (n div 10)) = n div 10" by simp
    with False show ?thesis
      by (subst nat_dec.simps) (simp add: dec_val_snoc digit_val_digit_char)
  qed
qed

lemma minus_not_digit: "\<not> is_digit (CHR ''-'')"
  by (simp add: is_digit_def)

lemma decimal_value_Itoa: "decimal_value (Itoa i) = Some i"
proof (cases "i < 0")
  case True
  then show ?thesis
    by (simp add: Itoa_def decimal_value_def nat_dec_nonempty nat_dec_digits dec_val_nat_dec)
next
  case False
  obtain c cs where s: "nat_dec (nat i) = c # cs"
    using nat_dec_nonempty [of "nat i"] by (cases "nat_dec (nat i)") auto
  have all: "list_all is_digit (c # cs)"
    using nat_dec_digits [of "nat i"] s by simp
  then have "c \<noteq> CHR ''-''" using minus_not_digit by auto
  moreover have "dec_val (c # cs) = nat i"
    using dec_val_nat_dec [of "nat i"] s by simp
  ultimately show ?thesis using False s all
    by (simp add: Itoa_def decimal_value_def)
qed

lemma rows_loop_map:
  "rows_loop records =
     map (\<lambda>r. Record.ID r @ tab @ Record.Name r @ tab @ Record.Type r @ tab @
              Record.Value r @ tab @
              (if Record.TTL r = 0 then ''default'' else Itoa (Record.TTL r)) @ nl) records"
  by (induction records) (simp_all add: Let_def)

text \<open>
  C9. The rows \<open>record list\<close> writes are one per record, in order, with the cells \<open>ID\<close>,
  \<open>NAME\<close>, \<open>TYPE\<close>, \<open>VALUE\<close> and \<open>TTL\<close>; the \<open>TTL\<close> cell is \<open>default\<close> when the record's TTL
  is 0 and \<open>Itoa\<close> of the TTL otherwise, which is its decimal representation (reading it
  back gives the TTL, while \<open>default\<close> is no number). When the config loads with a token,
  the zone resolves and the records are fetched and not empty, the command prints the
  header and these rows.
\<close>

theorem record_list_ttl_column:
  "rows_loop records =
     map (\<lambda>r. Record.ID r @ tab @ Record.Name r @ tab @ Record.Type r @ tab @
              Record.Value r @ tab @
              (if Record.TTL r = 0 then ''default'' else Itoa (Record.TTL r)) @ nl) records
   \<and> decimal_value (Itoa ttl) = Some ttl
   \<and> decimal_value ''default'' = None
   \<and> (LoadConfig env = (cfg_out, Inr cfg) \<and> APIToken cfg \<noteq> '''' \<and>
      resolveZoneID uni (NewClient (APIToken cfg) httpClient) zoneIDOrName = (zone_out, Inr zoneID) \<and>
      GetRecords (NewClient (APIToken cfg) httpClient) zoneID = Inr records \<and> records \<noteq> [] \<longrightarrow>
      recordListCmd uni env httpClient zoneIDOrName =
        cfg_out @ zone_out @
        [''ID'' @ tab @ ''NAME'' @ tab @ ''TYPE'' @ tab @ ''VALUE'' @ tab @ ''TTL'' @ nl] @
        rows_loop records)"
proof (intro conjI)
  show "rows_loop records =
     map (\<lambda>r. Record.ID r @ tab @ Record.Name r @ tab @ Record.Type r @ tab @
              Record.Value r @ tab @
              (if Record.TTL r = 0 then ''default'' else Itoa (Record.TTL r)) @ nl) records"
    by (rule rows_loop_map)
  show "decimal_value (Itoa ttl) = Some ttl"
    by (rule decimal_value_Itoa)
  show "decimal_value ''default'' = None"
    by (simp add: decimal_value_def is_digit_def)
  show "LoadConfig env = (cfg_out, Inr cfg) \<and> APIToken cfg \<noteq> '''' \<and>
      resolveZoneID uni (NewClient (APIToken cfg) httpClient) zoneIDOrName = (zone_out, Inr zoneID) \<and>
      GetRecords (NewClient (APIToken cfg) httpClient) zoneID = Inr records \<and> records \<noteq> [] \<longrightarrow>
      recordListCmd uni env httpClient zoneIDOrName =
        cfg_out @ zone_out @
        [''ID'' @ tab @ ''NAME'' @ tab @ ''TYPE'' @ tab @ ''VALUE'' @ tab @ ''TTL'' @ nl] @
        rows_loop records"
    by (simp add: recordListCmd_def Let_def)
qed

lemma Itoa_3600: "Itoa 3600 = ''3600''"
  by code_simp

text \<open>The example records: TTL 3600 is printed as \<open>3600\<close>, TTL 0 as \<open>default\<close>.\<close>

theorem record_list_ttl_column_witness:
  "recordListCmd latin1_lower list_env list_network ''z2'' =
     fst (resolveZoneID latin1_lower (NewClient ''secret'' list_network) ''z2'') @
     [''ID'' @ tab @ ''NAME'' @ tab @ ''TYPE'' @ tab @ ''VALUE'' @ tab @ ''TTL'' @ nl,
      ''r1'' @ tab @ ''www'' @ tab @ ''A'' @ tab @ ''192.168.1.1'' @ tab @ ''3600'' @ nl,
      ''r2'' @ tab @ ''mail'' @ tab @ ''A'' @ tab @ '''' @ tab @ ''default'' @ nl]
   \<and> decimal_value ''3600'' = Some 3600"
proof -
  let ?c = "NewClient ''secret'' list_network"
  let ?records =
    "[\<lparr>Record.ID = ''r1'', Record.Type = ''A'', Record.Name = ''www'',
       Record.Value = ''192.168.1.1'', Record.TTL = 3600, Record.ZoneID = ''z1'',
       Record.Created = '''', Record.Modified = ''''\<rparr>,
      \<lparr>Record.ID = ''r2'', Record.Type = ''A'', Record.Name = ''mail'',
       Record.Value = '''', Record.TTL = 0, Record.ZoneID = ''z1'',
       Record.Created = '''', Record.Modified = ''''\<rparr>]"
  have lc: "LoadConfig list_env = ([], Inr \<lparr>APIToken = ''secret''\<rparr>)"
    by (simp add: LoadConfig_def list_env_def GetString_api_token_def)
  have gz: "GetZones ?c = Inr two_zones"
    by (simp add: NewClient_def list_network_def two_zones_doc_def two_zones_def GetZones_def
        GetZones_request_def decode_map_def go_map_def zone_of_map_eq as_string_def
        as_float64_def)
  have "snd (resolveZoneID latin1_lower ?c ''z2'') = Inr ''z2''"
    by (simp add: resolveZoneID_def gz two_zones_def)
  then have rz: "resolveZoneID latin1_lower ?c ''z2'' = (fst (resolveZoneID latin1_lower ?c ''z2''), Inr ''z2'')"
    by (metis prod.collapse)
  have gr: "GetRecords ?c ''z2'' = Inr ?records"
    by (simp add: NewClient_def list_network_def baseURL_def records_doc_def GetRecords_def
        GetRecords_request_def decode_map_def go_map_def record_of_map_eq as_string_def
        as_float64_def float64_3600)
  have rows: "recordListCmd latin1_lower list_env list_network ''z2'' =
      [] @ fst (resolveZoneID latin1_lower ?c ''z2'') @
      [''ID'' @ tab @ ''NAME'' @ tab @ ''TYPE'' @ tab @ ''VALUE'' @ tab @ ''TTL'' @ nl] @
      rows_loop ?records"
    using record_list_ttl_column
      [where uni = latin1_lower and env = list_env and httpClient = list_network and zoneIDOrName = "''z2''"
         and cfg_out = "[]" and cfg = "\<lparr>APIToken = ''secret''\<rparr>"
         and zone_out = "fst (resolveZoneID latin1_lower ?c ''z2'')" and zoneID = "''z2''"
         and records = ?records]
      lc rz gr
    by simp
  have r: "rows_loop ?records =
      [''r1'' @ tab @ ''www'' @ tab @ ''A'' @ tab @ ''192.168.1.1'' @ tab @ ''3600'' @ nl,
       ''r2'' @ tab @ ''mail'' @ tab @ ''A'' @ tab @ '''' @ tab @ ''default'' @ nl]"
    by (simp add: Let_def Itoa_3600)
  have d: "decimal_value ''3600'' = Some 3600"
    using record_list_ttl_column [where ttl = 3600] by (simp add: Itoa_3600)
  from rows r d show ?thesis by simp
qed

section \<open>Name matching\<close>

lemma HasSuffix_dot: "HasSuffix s ''.'' \<longleftrightarrow> s \<noteq> [] \<and> last s = CHR ''.''"
proof (cases s rule: rev_cases)
  case Nil
  then show ?thesis by (simp add: HasSuffix_def)
next
  case (snoc ys y)
  then show ?thesis by (auto simp: HasSuffix_def)
qed

lemma TrimSuffix_dot:
  "TrimSuffix s ''.'' = (if s \<noteq> [] \<and> last s = CHR ''.'' then butlast s else s)"
  by (simp add: TrimSuffix_def HasSuffix_dot butlast_conv_take)

lemma upper_lower_byte:
  assumes "is_upper a" and "(of_char b :: nat) = of_char a + 32"
  shows "lower_byte a = b" and "lower_byte b = b"
proof -
  from assms(2) have "char_of (of_char a + 32 :: nat) = char_of (of_char b :: nat)" by simp
  then have "char_of (of_char a + 32 :: nat) = b" by simp
  with assms(1) show "lower_byte a = b" by (simp add: lower_byte_def is_upper_def)
  from assms show "lower_byte b = b" by (simp add: lower_byte_def is_upper_def)
qed

lemma same_letter_lower: "same_letter a b \<Longrightarrow> lower_byte a = lower_byte b"
  unfolding same_letter_def by (auto simp: upper_lower_byte)

lemma same_letter_dot: "same_letter a b \<Longrightarrow> a = CHR ''.'' \<longleftrightarrow> b = CHR ''.''"
  unfolding same_letter_def is_upper_def by auto

lemma same_letter_ascii: "same_letter a b \<Longrightarrow> is_ascii a = is_ascii b"
  unfolding same_letter_def is_upper_def is_ascii_def by auto

lemma same_letter_not_ascii: "same_letter a b \<Longrightarrow> \<not> is_ascii a \<or> \<not> is_ascii b \<Longrightarrow> a = b"
  unfolding same_letter_def is_upper_def is_ascii_def by auto

lemma differ_by_case_ascii: "differ_by_case s t \<Longrightarrow> list_all is_ascii s = list_all is_ascii t"
  unfolding differ_by_case_def
  by (induction s t rule: list_all2_induct) (simp_all add: same_letter_ascii)

lemma differ_by_case_lower_bytes: "differ_by_case s t \<Longrightarrow> map lower_byte s = map lower_byte t"
  unfolding differ_by_case_def
  by (induction s t rule: list_all2_induct) (simp_all add: same_letter_lower)

lemma differ_by_case_ToLower:
  assumes "respects_ascii_case uni" and "differ_by_case s t"
  shows "ToLower uni s = ToLower uni t"
proof -
  from assms have "uni s = uni t" by (simp add: respects_ascii_case_def)
  with assms(2) show ?thesis
    by (simp add: ToLower_def differ_by_case_ascii [OF assms(2)] differ_by_case_lower_bytes)
qed

text \<open>The example lower-casing of Latin-1 has the property.\<close>

lemma latin1_lower_same_letter:
  "list_all2 same_letter s t \<Longrightarrow> latin1_lower s = latin1_lower t"
proof (induction s arbitrary: t rule: latin1_lower.induct)
  case 1
  then show ?case by simp
next
  case (2 a)
  then obtain b where "t = [b]" and "same_letter a b"
    by (auto simp: list_all2_Cons1)
  then show ?case by (simp add: same_letter_lower)
next
  case (3 a b cs)
  from "3.prems" obtain a' b' cs' where t: "t = a' # b' # cs'"
    and a: "same_letter a a'" and b: "same_letter b b'" and cs: "list_all2 same_letter cs cs'"
    by (auto simp: list_all2_Cons1)
  let ?C = "\<lambda>x y. (of_char x :: nat) = 195 \<and> 128 \<le> (of_char y :: nat) \<and>
                   (of_char y :: nat) \<le> 158 \<and> (of_char y :: nat) \<noteq> 151"
  show ?case
  proof (cases "?C a b \<or> ?C a' b'")
    case True
    then have "\<not> is_ascii a \<or> \<not> is_ascii a'" "\<not> is_ascii b \<or> \<not> is_ascii b'"
      by (auto simp: is_ascii_def)
    with a b have eq: "a = a'" "b = b'" by (auto dest: same_letter_not_ascii)
    with True have C: "?C a b" by auto
    with "3.IH"(1) cs have "latin1_lower cs = latin1_lower cs'" by simp
    with C eq t show ?thesis by simp
  next
    case False
    then have nC: "\<not> ?C a b" and nC': "\<not> ?C a' b'" by auto
    from b cs have "list_all2 same_letter (b # cs) (b' # cs')" by simp
    with "3.IH"(2) nC have rest: "latin1_lower (b # cs) = latin1_lower (b' # cs')" by simp
    have l: "latin1_lower (a # b # cs) = lower_byte a # latin1_lower (b # cs)"
      by (subst latin1_lower.simps(3)) (rule if_not_P [OF nC])
    have r: "latin1_lower (a' # b' # cs') = lower_byte a' # latin1_lower (b' # cs')"
      by (subst latin1_lower.simps(3)) (rule if_not_P [OF nC'])
    from a have "lower_byte a = lower_byte a'" by (rule same_letter_lower)
    with l r rest t show ?thesis by (simp only:)
  qed
qed

lemma latin1_lower_respects: "respects_ascii_case latin1_lower"
  by (simp add: respects_ascii_case_def differ_by_case_def latin1_lower_same_letter)

lemma differ_by_case_last:
  assumes "differ_by_case s t" and "s \<noteq> []"
  shows "t \<noteq> [] \<and> same_letter (last s) (last t) \<and> differ_by_case (butlast s) (butlast t)"
proof -
  from assms obtain s' a where s: "s = s' @ [a]" by (cases s rule: rev_cases) auto
  from assms(1) have len: "length s = length t"
    by (simp add: differ_by_case_def list_all2_lengthD)
  with s obtain t' b where t: "t = t' @ [b]" by (cases t rule: rev_cases) auto
  from len s t have "length s' = length t'" by simp
  with assms(1) s t show ?thesis by (simp add: differ_by_case_def list_all2_append)
qed

lemma differ_by_case_TrimSuffix:
  assumes "differ_by_case s t"
  shows "differ_by_case (TrimSuffix s ''.'') (TrimSuffix t ''.'')"
proof (cases "s = []")
  case True
  with assms have "t = []" by (simp add: differ_by_case_def)
  with True show ?thesis by (simp add: TrimSuffix_dot differ_by_case_def)
next
  case False
  from differ_by_case_last [OF assms False]
  have t: "t \<noteq> []" and l: "same_letter (last s) (last t)"
    and b: "differ_by_case (butlast s) (butlast t)" by simp_all
  from l have "last s = CHR ''.'' \<longleftrightarrow> last t = CHR ''.''" by (rule same_letter_dot)
  with False t b assms show ?thesis by (simp add: TrimSuffix_dot)
qed

lemma differ_by_case_extra_dot:
  assumes "differ_by_case (s @ ''.'') t" and "\<not> HasSuffix s ''.''"
  shows "differ_by_case (TrimSuffix s ''.'') (TrimSuffix t ''.'')"
proof -
  from differ_by_case_last [OF assms(1)]
  have t: "t \<noteq> []" and l: "same_letter (CHR ''.'') (last t)"
    and b: "differ_by_case s (butlast t)" by simp_all
  from l have "last t = CHR ''.''" using same_letter_dot by blast
  with t have "TrimSuffix t ''.'' = butlast t" by (simp add: TrimSuffix_dot)
  moreover from assms(2) have "TrimSuffix s ''.'' = s" by (simp add: TrimSuffix_def)
  ultimately show ?thesis using b by simp
qed

lemma differ_by_case_sym: "differ_by_case s t \<Longrightarrow> differ_by_case t s"
  unfolding differ_by_case_def
  by (induction s t rule: list_all2_induct) (auto simp: same_letter_def)

lemma normalized_equal:
  assumes "respects_ascii_case uni" and "differ_by_case_or_only_dot s t"
  shows "ToLower uni (TrimSuffix s ''.'') = ToLower uni (TrimSuffix t ''.'')"
proof -
  from assms(2) consider
      (a) "differ_by_case s t"
    | (b) "\<not> HasSuffix s ''.''" "differ_by_case (s @ ''.'') t"
    | (c) "\<not> HasSuffix t ''.''" "differ_by_case s (t @ ''.'')"
    unfolding differ_by_case_or_only_dot_def by blast
  then show ?thesis
  proof cases
    case a
    then have "differ_by_case (TrimSuffix s ''.'') (TrimSuffix t ''.'')"
      by (rule differ_by_case_TrimSuffix)
    with assms(1) show ?thesis by (rule differ_by_case_ToLower)
  next
    case b
    then have "differ_by_case (TrimSuffix s ''.'') (TrimSuffix t ''.'')"
      by (intro differ_by_case_extra_dot)
    with assms(1) show ?thesis by (rule differ_by_case_ToLower)
  next
    case c
    from c(2) have "differ_by_case (t @ ''.'') s" by (rule differ_by_case_sym)
    with c(1) have "differ_by_case (TrimSuffix t ''.'') (TrimSuffix s ''.'')"
      by (intro differ_by_case_extra_dot)
    with assms(1) have "ToLower uni (TrimSuffix t ''.'') = ToLower uni (TrimSuffix s ''.'')"
      by (rule differ_by_case_ToLower)
    then show ?thesis by simp
  qed
qed

lemma find_exists:
  assumes "z \<in> set zs" and "P z"
  shows "\<exists>y. List.find P zs = Some y \<and> y \<in> set zs \<and> P y"
proof (cases "List.find P zs")
  case None
  with assms show ?thesis by (auto simp: find_None_iff)
next
  case (Some y)
  then have "P y" and "y \<in> set zs" by (auto simp: find_Some_iff)
  with Some show ?thesis by simp
qed

text \<open>
  C4, amended. Let the library's Unicode lower-casing \<open>uni\<close> give the same result for
  strings that differ only by ASCII letter case. Let the input and the name of a zone
  differ only by ASCII letter case and/or by one trailing dot that one of them has and
  the other, not ending in a dot, lacks. Then both normalize to the same string, and when
  no zone's identifier equals the input, \<open>resolveZoneID\<close> and \<open>GetZoneIDByName\<close> return the
  identifier of the first zone whose normalized name is that string.
\<close>

theorem name_phase_equivalence:
  assumes "respects_ascii_case uni"
    and "differ_by_case_or_only_dot input (Zone.Name z)"
    and "z \<in> set zones"
    and "GetZones client = Inr zones"
    and "\<forall>y \<in> set zones. Zone.ID y \<noteq> input"
  shows "ToLower uni (TrimSuffix input ''.'') = ToLower uni (TrimSuffix (Zone.Name z) ''.'')
         \<and> (\<exists>y \<in> set zones.
               List.find (\<lambda>y. ToLower uni (TrimSuffix (Zone.Name y) ''.'') =
                               ToLower uni (TrimSuffix input ''.'')) zones = Some y
             \<and> ToLower uni (TrimSuffix (Zone.Name y) ''.'') =
                 ToLower uni (TrimSuffix (Zone.Name z) ''.'')
             \<and> snd (resolveZoneID uni client input) = Inr (Zone.ID y)
             \<and> GetZoneIDByName uni client input = Inr (Zone.ID y))"
proof -
  let ?n = "ToLower uni (TrimSuffix input ''.'')"
  have n: "?n = ToLower uni (TrimSuffix (Zone.Name z) ''.'')"
    using assms(1,2) by (rule normalized_equal)
  from find_exists [of z zones "\<lambda>y. ToLower uni (TrimSuffix (Zone.Name y) ''.'') = ?n"]
    assms(3) n
  obtain y where
    y: "List.find (\<lambda>y. ToLower uni (TrimSuffix (Zone.Name y) ''.'') = ?n) zones = Some y"
    and yin: "y \<in> set zones" and yn: "ToLower uni (TrimSuffix (Zone.Name y) ''.'') = ?n"
    by auto
  from assms(5) have noid: "List.find (\<lambda>z. Zone.ID z = input) zones = None"
    by (simp add: find_None_iff)
  have r: "snd (resolveZoneID uni client input) = Inr (Zone.ID y)"
    using assms(4) noid y
    by (simp add: resolveZoneID_def id_loop_find name_loop_find Let_def)
  have g: "GetZoneIDByName uni client input = Inr (Zone.ID y)"
    using assms(4) y by (simp add: GetZoneIDByName_def name_loop_find Let_def)
  from n y yin yn r g show ?thesis by auto
qed

lemma GetZones_single:
  "GetZones (fixed_client 200 '''' (Inr (single_zone_doc name))) =
     Inr [\<lparr>Zone.ID = ''z1'', Zone.Name = name, Zone.TTL = 0, Zone.RecordsCount = 0\<rparr>]"
  by (simp add: fixed_client_def single_zone_doc_def GetZones_def GetZones_request_def
      decode_map_def go_map_def zone_of_map_def as_string_def as_float64_def Zone_zero_def)

text \<open>
  With the example lower-casing of Latin-1: \<open>EXAMPLE.COM.\<close> resolves to the zone named
  \<open>example.com\<close>, and \<open>example.com\<close> to the zone named \<open>EXAMPLE.COM.\<close>. Of the two zones
  named \<open>muenchen.de\<close> with u-umlaut, the first in lower case and the second with the
  umlaut in upper case, the input that differs from the second name by ASCII case only
  resolves to the first zone: both names normalize to the same string, and the first
  match wins.
\<close>

theorem name_phase_equivalence_witness:
  "respects_ascii_case latin1_lower
   \<and> differ_by_case_or_only_dot ''EXAMPLE.COM.'' ''example.com''
   \<and> snd (resolveZoneID latin1_lower
            (fixed_client 200 '''' (Inr (single_zone_doc ''example.com'')))
            ''EXAMPLE.COM.'') = Inr ''z1''
   \<and> GetZoneIDByName latin1_lower
        (fixed_client 200 '''' (Inr (single_zone_doc ''example.com'')))
        ''EXAMPLE.COM.'' = Inr ''z1''
   \<and> differ_by_case_or_only_dot ''example.com'' ''EXAMPLE.COM.''
   \<and> snd (resolveZoneID latin1_lower
            (fixed_client 200 '''' (Inr (single_zone_doc ''EXAMPLE.COM.'')))
            ''example.com'') = Inr ''z1''
   \<and> differ_by_case_or_only_dot muenchen_input muenchen_mixed
   \<and> snd (resolveZoneID latin1_lower (fixed_client 200 '''' (Inr muenchen_zones_doc))
            muenchen_input) = Inr ''a''"
proof -
  let ?z = "\<lambda>n. \<lparr>Zone.ID = ''z1'', Zone.Name = n, Zone.TTL = 0, Zone.RecordsCount = 0\<rparr>"
  have d1: "differ_by_case_or_only_dot ''EXAMPLE.COM.'' ''example.com''" by code_simp
  have d2: "differ_by_case_or_only_dot ''example.com'' ''EXAMPLE.COM.''" by code_simp
  have d3: "differ_by_case_or_only_dot muenchen_input muenchen_mixed" by code_simp
  have a: "snd (resolveZoneID latin1_lower
                 (fixed_client 200 '''' (Inr (single_zone_doc ''example.com'')))
                 ''EXAMPLE.COM.'') = Inr ''z1''
           \<and> GetZoneIDByName latin1_lower
                (fixed_client 200 '''' (Inr (single_zone_doc ''example.com'')))
                ''EXAMPLE.COM.'' = Inr ''z1''"
    using name_phase_equivalence
      [where uni = latin1_lower and input = "''EXAMPLE.COM.''" and z = "?z ''example.com''"
         and zones = "[?z ''example.com'']"
         and client = "fixed_client 200 '''' (Inr (single_zone_doc ''example.com''))"]
      latin1_lower_respects d1 GetZones_single [of "''example.com''"]
    by simp
  have b: "snd (resolveZoneID latin1_lower
                 (fixed_client 200 '''' (Inr (single_zone_doc ''EXAMPLE.COM.'')))
                 ''example.com'') = Inr ''z1''"
    using name_phase_equivalence
      [where uni = latin1_lower and input = "''example.com''" and z = "?z ''EXAMPLE.COM.''"
         and zones = "[?z ''EXAMPLE.COM.'']"
         and client = "fixed_client 200 '''' (Inr (single_zone_doc ''EXAMPLE.COM.''))"]
      latin1_lower_respects d2 GetZones_single [of "''EXAMPLE.COM.''"]
    by simp
  have zin: "hd (tl muenchen_zones) \<in> set muenchen_zones"
    and zname: "Zone.Name (hd (tl muenchen_zones)) = muenchen_mixed"
    by (simp_all add: muenchen_zones_def)
  have noid: "\<forall>y \<in> set muenchen_zones. Zone.ID y \<noteq> muenchen_input"
    by (simp add: muenchen_zones_def muenchen_input_def)
  have first: "List.find (\<lambda>y. ToLower latin1_lower (TrimSuffix (Zone.Name y) ''.'') =
                               ToLower latin1_lower (TrimSuffix muenchen_input ''.''))
                 muenchen_zones = Some (hd muenchen_zones)"
    by code_simp
  have ida: "Zone.ID (hd muenchen_zones) = ''a''"
    by (simp add: muenchen_zones_def)
  have c: "snd (resolveZoneID latin1_lower (fixed_client 200 '''' (Inr muenchen_zones_doc))
                 muenchen_input) = Inr ''a''"
    using name_phase_equivalence
      [where uni = latin1_lower and input = muenchen_input and z = "hd (tl muenchen_zones)"
         and zones = muenchen_zones
         and client = "fixed_client 200 '''' (Inr muenchen_zones_doc)"]
      latin1_lower_respects d3 zin zname GetZones_muenchen noid first ida
    by auto
  from latin1_lower_respects d1 d2 d3 a b c show ?thesis by simp
qed

text \<open>
  C4, as stated, fails: \<open>example.com..\<close> and \<open>example.com.\<close> differ only by the presence
  of one trailing dot, but only one dot is stripped, so the name phase does not match
  them and resolution fails. Both strings are ASCII, so the Unicode lower-casing of the
  library has no part in it.
\<close>

theorem name_phase_second_dot_counterexample:
  "differ_by_case_or_dot ''example.com..'' ''example.com.''
   \<and> ToLower latin1_lower (TrimSuffix ''example.com..'' ''.'') \<noteq>
       ToLower latin1_lower (TrimSuffix ''example.com.'' ''.'')
   \<and> snd (resolveZoneID latin1_lower
            (fixed_client 200 '''' (Inr (single_zone_doc ''example.com.'')))
            ''example.com..'') =
       Inl (NotFoundError (''could not find zone with ID or name '' @ sq @ ''example.com..'' @ sq))
   \<and> GetZoneIDByName latin1_lower
        (fixed_client 200 '''' (Inr (single_zone_doc ''example.com.'')))
        ''example.com..'' =
       Inl (NotFoundError (''zone with name '' @ sq @ ''example.com..'' @ sq @ '' not found''))"
proof -
  have d: "differ_by_case_or_dot ''example.com..'' ''example.com.''" by code_simp
  have n: "ToLower latin1_lower (TrimSuffix ''example.com.'' ''.'') \<noteq>
           ToLower latin1_lower (TrimSuffix ''example.com..'' ''.'')"
    by code_simp
  have r: "snd (resolveZoneID latin1_lower
            (fixed_client 200 '''' (Inr (single_zone_doc ''example.com.'')))
            ''example.com..'') =
       Inl (NotFoundError (''could not find zone with ID or name '' @ sq @ ''example.com..'' @ sq))"
    using n by (simp add: resolveZoneID_def GetZones_single Let_def)
  have g: "GetZoneIDByName latin1_lower
        (fixed_client 200 '''' (Inr (single_zone_doc ''example.com.'')))
        ''example.com..'' =
       Inl (NotFoundError (''zone with name '' @ sq @ ''example.com..'' @ sq @ '' not found''))"
    using n by (simp add: GetZoneIDByName_def GetZones_single Let_def)
  from d n r g show ?thesis by simp
qed

end
